theory Spec2Isabelle
  imports Main
begin

section \<open>Python values, exceptions and the string operations used\<close>

text \<open>
  The module under study is \<^verbatim>\<open>backend/utils.py\<close>: a system prompt, a model name read
  from the environment, and \<^verbatim>\<open>get_agent_response\<close>, a wrapper around
  \<^verbatim>\<open>litellm.completion\<close>. Python raises where a lookup fails; every such raise is a
  value \<open>Inl e\<close> of the model.

  A Python \<^verbatim>\<open>str\<close> is a \<open>string\<close>; a \<open>char\<close> stands for a code point below 256.
\<close>

datatype pykey = KStr string | KInt int

datatype exn =
    KeyError pykey
  | IndexError
  | TypeError
  | AttributeError
  | ProviderError string

text \<open>
  \<open>ProviderError\<close> is whatever \<^verbatim>\<open>litellm.completion\<close> raises by itself (network,
  authentication, provider); its payload is the detail of that exception.
\<close>

text \<open>A message is a \<^verbatim>\<open>Dict[str, str]\<close>.\<close>

type_synonym message = "string \<rightharpoonup> string"

text \<open>
  What \<^verbatim>\<open>litellm.completion\<close> returns is read by subscripts only, so it is a tree of
  Python values: dictionaries with string keys, lists, strings, numbers and \<^verbatim>\<open>None\<close>.
  The response object of litellm is taken as the dictionaries and lists it shows through
  its subscripts.
\<close>

datatype pyval =
    PNone
  | PInt int
  | PStr string
  | PList "pyval list"
  | PDict "(string \<times> pyval) list"

text \<open>\<^verbatim>\<open>d[key]\<close> on a message: \<^verbatim>\<open>KeyError\<close> when the key is absent.\<close>

definition dict_getitem :: "message \<Rightarrow> string \<Rightarrow> exn + string" where
  "dict_getitem d key = (case d key of None \<Rightarrow> Inl (KeyError (KStr key)) | Some v \<Rightarrow> Inr v)"

text \<open>\<^verbatim>\<open>obj[key]\<close> with a string key: only a dictionary accepts it.\<close>

fun getitem_str :: "pyval \<Rightarrow> string \<Rightarrow> exn + pyval" where
  "getitem_str (PDict d) key =
     (case map_of d key of None \<Rightarrow> Inl (KeyError (KStr key)) | Some v \<Rightarrow> Inr v)"
| "getitem_str _ key = Inl TypeError"

text \<open>
  \<^verbatim>\<open>obj[i]\<close> with an integer: a negative index counts from the end, an index out of range
  raises \<^verbatim>\<open>IndexError\<close>; a string gives the one-character string; a dictionary with
  string keys has no such key.
\<close>

definition seq_index :: "'a list \<Rightarrow> int \<Rightarrow> exn + 'a" where
  "seq_index xs i =
     (if 0 \<le> i \<and> i < int (length xs) then Inr (xs ! nat i)
      else if i < 0 \<and> - int (length xs) \<le> i then Inr (xs ! nat (int (length xs) + i))
      else Inl IndexError)"

fun getitem_int :: "pyval \<Rightarrow> int \<Rightarrow> exn + pyval" where
  "getitem_int (PList xs) i = seq_index xs i"
| "getitem_int (PStr s) i =
     (case seq_index s i of Inl e \<Rightarrow> Inl e | Inr c \<Rightarrow> Inr (PStr [c]))"
| "getitem_int (PDict d) i = Inl (KeyError (KInt i))"
| "getitem_int _ i = Inl TypeError"

text \<open>
  \<^verbatim>\<open>str.isspace\<close> on one character, for the code points below 256: the ASCII
  whitespace U+0009 to U+000D, the separators U+001C to U+001F, the space, U+0085 and
  U+00A0.
\<close>

definition py_isspace :: "char \<Rightarrow> bool" where
  "py_isspace c =
     (let n = (of_char c :: nat)
      in (9 \<le> n \<and> n \<le> 13) \<or> (28 \<le> n \<and> n \<le> 32) \<or> n = 133 \<or> n = 160)"

text \<open>\<^verbatim>\<open>s.strip()\<close>: drop whitespace from the left, then from the right.\<close>

definition strip :: "string \<Rightarrow> string" where
  "strip s = rev (dropWhile py_isspace (rev (dropWhile py_isspace s)))"

text \<open>\<^verbatim>\<open>obj.strip()\<close>: only a string has the method.\<close>

fun strip_method :: "pyval \<Rightarrow> exn + string" where
  "strip_method (PStr s) = Inr (strip s)"
| "strip_method _ = Inl AttributeError"

section \<open>Module constants\<close>

text \<open>
  \<^verbatim>\<open>SYSTEM_PROMPT\<close> is \<^verbatim>\<open>textwrap.dedent\<close> of the literal: the common margin of four
  spaces is removed, lines of spaces only become empty, and every line ends with a
  newline. The text starts with an empty line.
\<close>

definition SYSTEM_PROMPT_lines :: "string list" where
  \<open>SYSTEM_PROMPT_lines =
    [
     '''',
     ''You are a friendly culinary assistant skilled at helping normal folks '',
     ''create interesting meals at home. Unless otherwise specified, assume your'',
     ''users are in a large city in the United States.'',
     '''',
     ''## Content'',
     '''',
     ''Always provide ingredient lists with precise measurements in the correct units for'',
     ''their location. For example, Americans use imperial measurements while the French'',
     ''would use metric units.'',
     '''',
     ''Always use culturally appropriate measures. For example, Americans measure flour by'',
     ''volume while Europeans use weight.'',
     '''',
     ''Never use offensive or derogatory language.'',
     '''',
     ''If a user asks for a recipe that is unsafe, unethical, or promotes harmful activities, politely.'',
     '''',
     ''Present only one recipe at a time.'',
     '''',
     ''If the user doesn't specify what ingredients they have on-hand, assume they are'',
     ''willing to shop on their way home. If they live in a large city, they most likely have'',
     ''access to semi-exotic spices and "ethnic" ingredients.'',
     '''',
     ''Be descriptive in the steps of the recipe, so it is easy to follow.'',
     '''',
     ''You MUST suggest a complete recipe, do not require a back-and-forth before'',
     ''fully answering the user.'',
     '''',
     ''After you list your recipe, provide suggestions for tweaks or directions for alternatives'',
     ''for people dissatisfied with the recipe. For example, if a recipe includes a long baking'',
     ''session you might offer to provide a less time-intensive recipe, or if suggesting exotic'',
     ''ingredients mention what might be skipped or substituted or similar recipes with more'',
     ''traditional ingredients.'',
     '''',
     ''Take a free hand in the recipes you suggest: some night you just want to roast some'',
     ''potatoes, while other times you might want pad kra pow. Every recipe must be reasonable for'',
     ''a single person to prepare.'',
     '''',
     ''Mention the serving size in the recipe. If not specified, assume 2 people.'',
     '''',
     ''## Formatting'',
     '''',
     ''Structure all recipes as Markdown.'',
     '''',
     ''Begin every recipe response with the recipe name as a Level 2 Heading (e.g., `## Amazing Blueberry Muffins`)'',
     '''',
     ''Immediately follow with a brief, enticing description of the dish (1-3 sentences)'',
     '''',
     ''Next, include a section titled `### Ingredients`. List all ingredients using a Markdown unordered list (bullet points).'',
     '''',
     ''Following ingredients, include a section titled `### Instructions`. Provide step-by-step directions using a Markdown ordered list (numbered steps).'',
     '''',
     ''Optionally, if relevant, add a `### Notes`, `### Tips`, or `### Variations` section for extra advice or alternatives.'',
     '''',
     ''**Example of desired Markdown structure for a recipe response**:'',
     '''',
     ''```markdown'',
     ''## Golden Pan-Fried Salmon'',
     '''',
     ''A quick and delicious way to prepare salmon with a crispy skin and moist interior, perfect for a weeknight dinner.'',
     '''',
     ''### Ingredients'',
     ''* 2 salmon fillets (approx. 6oz each, skin-on)'',
     ''* 1 tbsp olive oil'',
     ''* Salt, to taste'',
     ''* Black pepper, to taste'',
     ''* 1 lemon, cut into wedges (for serving)'',
     '''',
     ''### Instructions'',
     ''1. Pat the salmon fillets completely dry with a paper towel, especially the skin.'',
     ''2. Season both sides of the salmon with salt and pepper.'',
     ''3. Heat olive oil in a non-stick skillet over medium-high heat until shimmering.'',
     ''4. Place salmon fillets skin-side down in the hot pan.'',
     ''5. Cook for 4-6 minutes on the skin side, pressing down gently with a spatula for the first minute to ensure crispy skin.'',
     ''6. Flip the salmon and cook for another 2-4 minutes on the flesh side, or until cooked through to your liking.'',
     ''7. Serve immediately with lemon wedges.'',
     '''',
     ''### Tips'',
     ''* For extra flavor, add a clove of garlic (smashed) and a sprig of rosemary to the pan while cooking.'',
     ''* Ensure the pan is hot before adding the salmon for the best sear.'',
     ''```''
    ]\<close>

definition SYSTEM_PROMPT :: string where
  "SYSTEM_PROMPT = concat (map (\<lambda>l. l @ ''\<newline>'') SYSTEM_PROMPT_lines)"

text \<open>
  The environment is \<^verbatim>\<open>os.environ\<close>. \<^verbatim>\<open>load_dotenv(override=False)\<close> belongs to
  python-dotenv; what it does to the environment is a parameter of the import.
  \<^verbatim>\<open>MODEL_NAME\<close> is read from the environment it leaves, once, when the module is
  imported.
\<close>

type_synonym environ = "string \<rightharpoonup> string"

definition os_environ_get :: "environ \<Rightarrow> string \<Rightarrow> string \<Rightarrow> string" where
  "os_environ_get environ key dflt =
     (case environ key of None \<Rightarrow> dflt | Some v \<Rightarrow> v)"

record utils_module =
  MODEL_NAME :: string

definition import_utils :: "(environ \<Rightarrow> environ) \<Rightarrow> environ \<Rightarrow> utils_module \<times> environ" where
  "import_utils load_dotenv environ =
     (let environ' = load_dotenv environ
      in (\<lparr>MODEL_NAME = os_environ_get environ' ''MODEL_NAME'' ''gpt-4o-mini''\<rparr>, environ'))"

section \<open>The completion capability\<close>

text \<open>
  \<^verbatim>\<open>litellm.completion\<close> is outside the module. It is a parameter \<open>backend\<close>: from the
  provider's state, the model name and the messages it gives a completion or raises, and
  a new provider state. Every invocation is one outbound call; the world records them in
  order.
\<close>

record 'p world =
  calls :: "(string \<times> message list) list"
  provider :: 'p

type_synonym 'p backend =
  "'p \<Rightarrow> string \<Rightarrow> message list \<Rightarrow> (exn + pyval) \<times> 'p"

definition litellm_completion ::
  "'p backend \<Rightarrow> string \<Rightarrow> message list \<Rightarrow> 'p world \<Rightarrow> (exn + pyval) \<times> 'p world" where
  "litellm_completion backend model messages w =
     (case backend (provider w) model messages of
        (r, p') \<Rightarrow> (r, \<lparr>calls = calls w @ [(model, messages)], provider = p'\<rparr>))"

section \<open>The agent wrapper\<close>

text \<open>
  Lines 128 to 132: the system prompt goes first unless the history already starts with
  a system message. \<^verbatim>\<open>messages[0]["role"]\<close> raises \<^verbatim>\<open>KeyError\<close> on a first message
  without that key.
\<close>

definition current_messages :: "message list \<Rightarrow> exn + message list" where
  "current_messages messages =
     (if messages = [] then
        Inr ([[''role'' \<mapsto> ''system'', ''content'' \<mapsto> SYSTEM_PROMPT]] @ messages)
      else
        (case dict_getitem (hd messages) ''role'' of
           Inl e \<Rightarrow> Inl e
         | Inr role \<Rightarrow>
             if role \<noteq> ''system'' then
               Inr ([[''role'' \<mapsto> ''system'', ''content'' \<mapsto> SYSTEM_PROMPT]] @ messages)
             else Inr messages))"

text \<open>
  Lines 139 to 142: \<^verbatim>\<open>completion["choices"][0]["message"]["content"].strip()\<close>, each
  step raising as Python does.
\<close>

definition assistant_reply_content :: "pyval \<Rightarrow> exn + string" where
  "assistant_reply_content completion =
     (case getitem_str completion ''choices'' of
        Inl e \<Rightarrow> Inl e
      | Inr choices \<Rightarrow>
     (case getitem_int choices 0 of
        Inl e \<Rightarrow> Inl e
      | Inr choice \<Rightarrow>
     (case getitem_str choice ''message'' of
        Inl e \<Rightarrow> Inl e
      | Inr msg \<Rightarrow>
     (case getitem_str msg ''content'' of
        Inl e \<Rightarrow> Inl e
      | Inr content \<Rightarrow> strip_method content))))"

text \<open>
  The whole function. An exception leaves it at the point where it is raised, with the
  world as it is then.
\<close>

definition get_agent_response ::
  "utils_module \<Rightarrow> 'p backend \<Rightarrow> message list \<Rightarrow> 'p world
     \<Rightarrow> (exn + message list) \<times> 'p world" where
  "get_agent_response md backend messages w =
     (case current_messages messages of
        Inl e \<Rightarrow> (Inl e, w)
      | Inr cur \<Rightarrow>
          (case litellm_completion backend (MODEL_NAME md) cur w of
             (Inl e, w') \<Rightarrow> (Inl e, w')
           | (Inr completion, w') \<Rightarrow>
               (case assistant_reply_content completion of
                  Inl e \<Rightarrow> (Inl e, w')
                | Inr content \<Rightarrow>
                    (Inr (cur @ [[''role'' \<mapsto> ''assistant'', ''content'' \<mapsto> content]]), w'))))"

section \<open>The wrapper on a store of objects\<close>

text \<open>
  Python lists and dictionaries are objects: two names can stand for one list, and a
  change made through one name is seen through the other. To say what the function
  does to the caller's objects, the same code is read once more over a store. A list
  object holds references to dictionary objects; a reference is the position of the
  object in the store, so a new object goes to the end and every older reference keeps
  its meaning. Strings are immutable and stay values.

  \<^verbatim>\<open>litellm.completion\<close> is given the value of the list it is passed; it is taken not
  to change the caller's objects.
\<close>

record store =
  list_objs :: "nat list list"
  dict_objs :: "message list"

definition list_at :: "store \<Rightarrow> nat \<Rightarrow> nat list" where
  "list_at st l = list_objs st ! l"

definition dict_at :: "store \<Rightarrow> nat \<Rightarrow> message" where
  "dict_at st d = dict_objs st ! d"

text \<open>A reference to a list of messages is valid when it and its elements are in the store.\<close>

definition valid_messages :: "store \<Rightarrow> nat \<Rightarrow> bool" where
  "valid_messages st l \<longleftrightarrow>
     l < length (list_objs st) \<and> list_all (\<lambda>d. d < length (dict_objs st)) (list_at st l)"

text \<open>The list of messages a reference stands for.\<close>

definition messages_value :: "store \<Rightarrow> nat \<Rightarrow> message list" where
  "messages_value st l = map (dict_at st) (list_at st l)"

text \<open>A dictionary display \<^verbatim>\<open>{...}\<close> and a list display \<^verbatim>\<open>[...]\<close> make a new object.\<close>

definition new_dict :: "message \<Rightarrow> store \<Rightarrow> nat \<times> store" where
  "new_dict d st = (length (dict_objs st), st\<lparr>dict_objs := dict_objs st @ [d]\<rparr>)"

definition new_list :: "nat list \<Rightarrow> store \<Rightarrow> nat \<times> store" where
  "new_list xs st = (length (list_objs st), st\<lparr>list_objs := list_objs st @ [xs]\<rparr>)"

text \<open>\<^verbatim>\<open>a + b\<close> on lists makes a new list object with the elements of both.\<close>

definition list_add :: "nat \<Rightarrow> nat \<Rightarrow> store \<Rightarrow> nat \<times> store" where
  "list_add a b st = new_list (list_at st a @ list_at st b) st"

text \<open>Line 130: \<^verbatim>\<open>[{"role": "system", "content": SYSTEM_PROMPT}] + messages\<close>.\<close>

definition prepend_system :: "nat \<Rightarrow> store \<Rightarrow> nat \<times> store" where
  "prepend_system messages st =
     (case new_dict [''role'' \<mapsto> ''system'', ''content'' \<mapsto> SYSTEM_PROMPT] st of
        (d, st1) \<Rightarrow>
     (case new_list [d] st1 of
        (tmp, st2) \<Rightarrow> list_add tmp messages st2))"

text \<open>Lines 128 to 132; in the else branch \<^verbatim>\<open>current_messages\<close> is the caller's list itself.\<close>

definition current_messages_obj :: "nat \<Rightarrow> store \<Rightarrow> exn + nat \<times> store" where
  "current_messages_obj messages st =
     (if list_at st messages = [] then Inr (prepend_system messages st)
      else
        (case dict_getitem (dict_at st (hd (list_at st messages))) ''role'' of
           Inl e \<Rightarrow> Inl e
         | Inr role \<Rightarrow>
             if role \<noteq> ''system'' then Inr (prepend_system messages st)
             else Inr (messages, st)))"

text \<open>Line 145: \<^verbatim>\<open>current_messages + [{"role": "assistant", "content": ...}]\<close>.\<close>

definition updated_messages_obj :: "nat \<Rightarrow> string \<Rightarrow> store \<Rightarrow> nat \<times> store" where
  "updated_messages_obj cur content st =
     (case new_dict [''role'' \<mapsto> ''assistant'', ''content'' \<mapsto> content] st of
        (d, st1) \<Rightarrow>
     (case new_list [d] st1 of
        (tmp, st2) \<Rightarrow> list_add cur tmp st2))"

definition get_agent_response_obj ::
  "utils_module \<Rightarrow> 'p backend \<Rightarrow> nat \<Rightarrow> store \<Rightarrow> 'p world
     \<Rightarrow> (exn + nat) \<times> store \<times> 'p world" where
  "get_agent_response_obj md backend messages st w =
     (case current_messages_obj messages st of
        Inl e \<Rightarrow> (Inl e, st, w)
      | Inr (cur, st1) \<Rightarrow>
          (case litellm_completion backend (MODEL_NAME md) (messages_value st1 cur) w of
             (Inl e, w') \<Rightarrow> (Inl e, st1, w')
           | (Inr completion, w') \<Rightarrow>
               (case assistant_reply_content completion of
                  Inl e \<Rightarrow> (Inl e, st1, w')
                | Inr content \<Rightarrow>
                    (case updated_messages_obj cur content st1 of
                       (updated, st2) \<Rightarrow> (Inr updated, st2, w')))))"

section \<open>Mock completion capabilities\<close>

text \<open>
  The scenarios use a completion capability that answers every call alike: with a
  fixed completion, or with a fixed exception. \<open>completion_with_content\<close> is the
  smallest completion that has the fields the wrapper reads.
\<close>

definition const_backend :: "(exn + pyval) \<Rightarrow> 'p backend" where
  "const_backend r p model messages = (r, p)"

definition completion_with_content :: "pyval \<Rightarrow> pyval" where
  "completion_with_content content =
     PDict [(''choices'', PList [PDict [(''message'',
       PDict [(''role'', PStr ''assistant''), (''content'', content)])]])]"

definition world0 :: "unit world" where
  "world0 = \<lparr>calls = [], provider = ()\<rparr>"

text \<open>A store with one list object, holding one user message.\<close>

definition store0 :: store where
  "store0 = \<lparr>list_objs = [[0]],
              dict_objs = [[''role'' \<mapsto> ''user'', ''content'' \<mapsto> ''hi'']]\<rparr>"

section \<open>Facts about the string operations\<close>

lemma strip_prefix_of_dropWhile:
  "dropWhile py_isspace s = strip s @ rev (takeWhile py_isspace (rev (dropWhile py_isspace s)))"
proof -
  let ?t = "dropWhile py_isspace s"
  have "strip s @ rev (takeWhile py_isspace (rev ?t))
          = rev (takeWhile py_isspace (rev ?t) @ dropWhile py_isspace (rev ?t))"
    by (simp only: strip_def rev_append)
  also have "\<dots> = rev (rev ?t)"
    by (simp only: takeWhile_dropWhile_id)
  finally show ?thesis
    by simp
qed

lemma strip_decomposition:
  "s = takeWhile py_isspace s @ strip s
         @ rev (takeWhile py_isspace (rev (dropWhile py_isspace s)))"
proof -
  have "s = takeWhile py_isspace s @ dropWhile py_isspace s"
    by simp
  then show ?thesis
    using strip_prefix_of_dropWhile [of s] by simp
qed

lemma strip_no_leading_space:
  assumes "strip s \<noteq> []"
  shows "\<not> py_isspace (hd (strip s))"
proof -
  let ?t = "dropWhile py_isspace s"
  have "?t = [] \<Longrightarrow> strip s = []"
    by (simp only: strip_def rev.simps dropWhile.simps)
  with assms have "?t \<noteq> []"
    by blast
  then have "\<not> py_isspace (hd ?t)"
    by (rule hd_dropWhile)
  moreover have "hd ?t = hd (strip s)"
    using assms strip_prefix_of_dropWhile [of s] by (metis hd_append2)
  ultimately show ?thesis by simp
qed

lemma strip_no_trailing_space:
  assumes "strip s \<noteq> []"
  shows "\<not> py_isspace (last (strip s))"
proof -
  let ?u = "dropWhile py_isspace (rev (dropWhile py_isspace s))"
  from assms have ne: "?u \<noteq> []"
    by (simp add: strip_def)
  then have "\<not> py_isspace (hd ?u)"
    by (rule hd_dropWhile)
  moreover have "last (strip s) = hd ?u"
    using ne by (simp add: strip_def last_rev)
  ultimately show ?thesis by simp
qed

lemma strip_all_space:
  assumes "\<forall>c \<in> set s. py_isspace c"
  shows "strip s = []"
proof -
  from assms have "dropWhile py_isspace s = []"
    by simp
  then show ?thesis
    by (simp only: strip_def rev.simps dropWhile.simps)
qed

section \<open>Facts about the wrapper\<close>

lemma current_messages_prepend:
  assumes "T = [] \<or> (\<exists>r. hd T ''role'' = Some r \<and> r \<noteq> ''system'')"
  shows "current_messages T =
           Inr ([''role'' \<mapsto> ''system'', ''content'' \<mapsto> SYSTEM_PROMPT] # T)"
  using assms by (auto simp: current_messages_def dict_getitem_def)

lemma current_messages_keep:
  assumes "T \<noteq> []" and "hd T ''role'' = Some ''system''"
  shows "current_messages T = Inr T"
  using assms by (simp add: current_messages_def dict_getitem_def)

lemma current_messages_KeyError:
  assumes "T \<noteq> []" and "hd T ''role'' = None"
  shows "current_messages T = Inl (KeyError (KStr ''role''))"
  using assms by (simp add: current_messages_def dict_getitem_def)

lemma current_messages_cases:
  assumes "current_messages T = Inr B"
  shows "B = [''role'' \<mapsto> ''system'', ''content'' \<mapsto> SYSTEM_PROMPT] # T
           \<or> (B = T \<and> T \<noteq> [] \<and> hd T ''role'' = Some ''system'')"
  using assms
  by (auto simp: current_messages_def dict_getitem_def split: if_splits option.splits)

lemma current_messages_starts_with_system:
  assumes "current_messages T = Inr B"
  shows "B \<noteq> [] \<and> hd B ''role'' = Some ''system''"
  using current_messages_cases [OF assms] by auto

lemma get_agent_response_raises_before_call:
  assumes "current_messages T = Inl e"
  shows "get_agent_response md backend T w = (Inl e, w)"
  using assms by (simp add: get_agent_response_def)

lemma get_agent_response_calls:
  assumes "current_messages T = Inr B"
  shows "calls (snd (get_agent_response md backend T w)) = calls w @ [(MODEL_NAME md, B)]"
  using assms
  by (simp add: get_agent_response_def litellm_completion_def split: prod.splits sum.splits)

lemma get_agent_response_provider:
  assumes "current_messages T = Inr B"
  shows "provider (snd (get_agent_response md backend T w))
           = snd (backend (provider w) (MODEL_NAME md) B)"
  using assms
  by (simp add: get_agent_response_def litellm_completion_def split: prod.splits sum.splits)

lemma get_agent_response_provider_raises:
  assumes "current_messages T = Inr B"
    and "backend (provider w) (MODEL_NAME md) B = (Inl e, p')"
  shows "get_agent_response md backend T w =
           (Inl e, \<lparr>calls = calls w @ [(MODEL_NAME md, B)], provider = p'\<rparr>)"
  using assms by (simp add: get_agent_response_def litellm_completion_def)

lemma get_agent_response_extraction_raises:
  assumes "current_messages T = Inr B"
    and "backend (provider w) (MODEL_NAME md) B = (Inr c, p')"
    and "assistant_reply_content c = Inl e"
  shows "get_agent_response md backend T w =
           (Inl e, \<lparr>calls = calls w @ [(MODEL_NAME md, B)], provider = p'\<rparr>)"
  using assms by (simp add: get_agent_response_def litellm_completion_def)

lemma get_agent_response_returns:
  assumes "current_messages T = Inr B"
    and "backend (provider w) (MODEL_NAME md) B = (Inr c, p')"
    and "assistant_reply_content c = Inr s"
  shows "get_agent_response md backend T w =
           (Inr (B @ [[''role'' \<mapsto> ''assistant'', ''content'' \<mapsto> s]]),
            \<lparr>calls = calls w @ [(MODEL_NAME md, B)], provider = p'\<rparr>)"
  using assms by (simp add: get_agent_response_def litellm_completion_def)

lemma get_agent_response_returned:
  assumes "fst (get_agent_response md backend T w) = Inr out"
  shows "\<exists>B c p' s. current_messages T = Inr B
           \<and> backend (provider w) (MODEL_NAME md) B = (Inr c, p')
           \<and> assistant_reply_content c = Inr s
           \<and> out = B @ [[''role'' \<mapsto> ''assistant'', ''content'' \<mapsto> s]]"
  using assms
  by (auto simp: get_agent_response_def litellm_completion_def split: prod.splits sum.splits)

lemma assistant_reply_content_text:
  assumes "c = PDict cd"
    and "map_of cd ''choices'' = Some (PList (PDict chd # chs))"
    and "map_of chd ''message'' = Some (PDict msg)"
    and "map_of msg ''content'' = Some (PStr s)"
  shows "assistant_reply_content c = Inr (strip s)"
  using assms by (simp add: assistant_reply_content_def seq_index_def)

lemma assistant_reply_content_mock:
  "assistant_reply_content (completion_with_content content) = strip_method content"
  by (simp add: assistant_reply_content_def completion_with_content_def seq_index_def)

section \<open>Facts about the store\<close>

lemma prepend_system_store:
  assumes "messages < length (list_objs st)"
  shows "prepend_system messages st =
           (Suc (length (list_objs st)),
            st\<lparr>dict_objs := dict_objs st
                   @ [[''role'' \<mapsto> ''system'', ''content'' \<mapsto> SYSTEM_PROMPT]],
               list_objs := list_objs st
                   @ [[length (dict_objs st)], length (dict_objs st) # list_at st messages]\<rparr>)"
  using assms
  by (simp add: prepend_system_def new_dict_def new_list_def list_add_def list_at_def nth_append)

lemma updated_messages_obj_store:
  assumes "cur < length (list_objs st)"
  shows "updated_messages_obj cur content st =
           (Suc (length (list_objs st)),
            st\<lparr>dict_objs := dict_objs st
                   @ [[''role'' \<mapsto> ''assistant'', ''content'' \<mapsto> content]],
               list_objs := list_objs st
                   @ [[length (dict_objs st)], list_at st cur @ [length (dict_objs st)]]\<rparr>)"
  using assms
  by (simp add: updated_messages_obj_def new_dict_def new_list_def list_add_def list_at_def
      nth_append)

lemma messages_value_extend:
  assumes "valid_messages st l"
    and "list_objs st' = list_objs st @ nl" and "dict_objs st' = dict_objs st @ nd"
  shows "list_at st' l = list_at st l" and "messages_value st' l = messages_value st l"
    and "valid_messages st' l"
proof -
  from assms(1) have l: "l < length (list_objs st)"
    and d: "\<forall>d \<in> set (list_at st l). d < length (dict_objs st)"
    by (simp_all add: valid_messages_def list_all_iff)
  from l assms(2) show la: "list_at st' l = list_at st l"
    by (simp add: list_at_def nth_append)
  from d assms(3) have "\<forall>d \<in> set (list_at st l). dict_at st' d = dict_at st d"
    by (simp add: dict_at_def nth_append)
  with la show "messages_value st' l = messages_value st l"
    by (simp add: messages_value_def)
  from l d la assms(2) assms(3) show "valid_messages st' l"
    by (auto simp: valid_messages_def list_all_iff)
qed

lemma prepend_system_value:
  assumes "valid_messages st l" and "prepend_system l st = (cur, st1)"
  shows "messages_value st1 cur
           = [''role'' \<mapsto> ''system'', ''content'' \<mapsto> SYSTEM_PROMPT] # messages_value st l"
    and "valid_messages st1 cur"
    and "list_at st1 cur = length (dict_objs st) # list_at st l"
proof -
  from assms(1) have l: "l < length (list_objs st)"
    and d: "\<forall>d \<in> set (list_at st l). d < length (dict_objs st)"
    by (simp_all add: valid_messages_def list_all_iff)
  from assms(2) prepend_system_store [OF l]
  have cur: "cur = Suc (length (list_objs st))"
    and st1: "st1 = st\<lparr>dict_objs := dict_objs st
                   @ [[''role'' \<mapsto> ''system'', ''content'' \<mapsto> SYSTEM_PROMPT]],
               list_objs := list_objs st
                   @ [[length (dict_objs st)], length (dict_objs st) # list_at st l]\<rparr>"
    by simp_all
  show la: "list_at st1 cur = length (dict_objs st) # list_at st l"
    by (simp add: cur st1 list_at_def nth_append)
  from d have "map (dict_at st1) (list_at st l) = map (dict_at st) (list_at st l)"
    by (simp add: st1 dict_at_def nth_append)
  moreover have "dict_at st1 (length (dict_objs st))
      = [''role'' \<mapsto> ''system'', ''content'' \<mapsto> SYSTEM_PROMPT]"
    by (simp add: st1 dict_at_def)
  ultimately show "messages_value st1 cur
      = [''role'' \<mapsto> ''system'', ''content'' \<mapsto> SYSTEM_PROMPT] # messages_value st l"
    by (simp add: messages_value_def la)
  have len: "length (dict_objs st1) = Suc (length (dict_objs st))"
    by (simp add: st1)
  from d have "\<forall>d \<in> set (length (dict_objs st) # list_at st l). d < Suc (length (dict_objs st))"
    by auto
  then have "\<forall>d \<in> set (list_at st1 cur). d < length (dict_objs st1)"
    by (simp only: la len)
  moreover have "cur < length (list_objs st1)"
    by (simp add: cur st1)
  ultimately show "valid_messages st1 cur"
    by (simp add: valid_messages_def list_all_iff)
qed

lemma updated_messages_obj_value:
  assumes "valid_messages st cur" and "updated_messages_obj cur content st = (u, st')"
  shows "messages_value st' u
           = messages_value st cur @ [[''role'' \<mapsto> ''assistant'', ''content'' \<mapsto> content]]"
    and "list_at st' u = list_at st cur @ [length (dict_objs st)]"
    and "u = Suc (length (list_objs st))"
    and "dict_objs st' = dict_objs st @ [[''role'' \<mapsto> ''assistant'', ''content'' \<mapsto> content]]"
    and "list_objs st' = list_objs st @ [[length (dict_objs st)], list_at st cur @ [length (dict_objs st)]]"
proof -
  from assms(1) have l: "cur < length (list_objs st)"
    and d: "\<forall>d \<in> set (list_at st cur). d < length (dict_objs st)"
    by (simp_all add: valid_messages_def list_all_iff)
  from assms(2) updated_messages_obj_store [OF l]
  show u: "u = Suc (length (list_objs st))"
    by simp
  from assms(2) updated_messages_obj_store [OF l]
  have st': "st' = st\<lparr>dict_objs := dict_objs st
                   @ [[''role'' \<mapsto> ''assistant'', ''content'' \<mapsto> content]],
               list_objs := list_objs st
                   @ [[length (dict_objs st)], list_at st cur @ [length (dict_objs st)]]\<rparr>"
    by simp
  show "dict_objs st' = dict_objs st @ [[''role'' \<mapsto> ''assistant'', ''content'' \<mapsto> content]]"
    by (simp add: st')
  show "list_objs st' = list_objs st @ [[length (dict_objs st)], list_at st cur @ [length (dict_objs st)]]"
    by (simp add: st')
  show la: "list_at st' u = list_at st cur @ [length (dict_objs st)]"
    by (simp add: u st' list_at_def nth_append)
  from d have "map (dict_at st') (list_at st cur) = map (dict_at st) (list_at st cur)"
    by (simp add: st' dict_at_def nth_append)
  moreover have "dict_at st' (length (dict_objs st))
      = [''role'' \<mapsto> ''assistant'', ''content'' \<mapsto> content]"
    by (simp add: st' dict_at_def)
  ultimately show "messages_value st' u
      = messages_value st cur @ [[''role'' \<mapsto> ''assistant'', ''content'' \<mapsto> content]]"
    by (simp add: messages_value_def la)
qed

text \<open>
  Normalization on the store has three outcomes, and each is the outcome of the
  normalization on values.
\<close>

lemma current_messages_obj_cases:
  assumes "valid_messages st l"
  shows "(current_messages_obj l st = Inl (KeyError (KStr ''role''))
            \<and> current_messages (messages_value st l) = Inl (KeyError (KStr ''role'')))
       \<or> (current_messages_obj l st = Inr (l, st)
            \<and> current_messages (messages_value st l) = Inr (messages_value st l))
       \<or> (current_messages_obj l st = Inr (prepend_system l st)
            \<and> current_messages (messages_value st l)
                = Inr ([''role'' \<mapsto> ''system'', ''content'' \<mapsto> SYSTEM_PROMPT]
                       # messages_value st l))"
proof (cases "list_at st l")
  case Nil
  then show ?thesis
    by (simp add: current_messages_obj_def current_messages_def messages_value_def)
next
  case (Cons d ds)
  then show ?thesis
    by (cases "dict_at st d ''role''")
      (simp_all add: current_messages_obj_def current_messages_def messages_value_def
        dict_getitem_def)
qed


lemma current_messages_obj_Inr:
  assumes "valid_messages st l" and "current_messages_obj l st = Inr (cur, st1)"
  shows "current_messages (messages_value st l) = Inr (messages_value st1 cur)
       \<and> valid_messages st1 cur
       \<and> (\<exists>nl nd. list_objs st1 = list_objs st @ nl \<and> dict_objs st1 = dict_objs st @ nd)
       \<and> (\<exists>pre. list_at st1 cur = pre @ list_at st l \<and> length pre \<le> 1
             \<and> (\<forall>a \<in> set pre. length (dict_objs st) \<le> a \<and> a < length (dict_objs st1)))"
proof -
  from assms(1) have l: "l < length (list_objs st)"
    by (simp add: valid_messages_def)
  from current_messages_obj_cases [OF assms(1)] assms(2)
  consider (keep) "cur = l" "st1 = st"
      "current_messages (messages_value st l) = Inr (messages_value st l)"
    | (prepend) "prepend_system l st = (cur, st1)"
      "current_messages (messages_value st l)
         = Inr ([''role'' \<mapsto> ''system'', ''content'' \<mapsto> SYSTEM_PROMPT] # messages_value st l)"
    by auto
  then show ?thesis
  proof cases
    case keep
    have "list_at st l = [] @ list_at st l \<and> length ([] :: nat list) \<le> 1
        \<and> (\<forall>a \<in> set ([] :: nat list). length (dict_objs st) \<le> a \<and> a < length (dict_objs st))"
      by simp
    then have "\<exists>pre. list_at st l = pre @ list_at st l \<and> length pre \<le> 1
        \<and> (\<forall>a \<in> set pre. length (dict_objs st) \<le> a \<and> a < length (dict_objs st))"
      by (rule exI)
    with keep assms(1) show ?thesis
      by simp
  next
    case prepend
    note v = prepend_system_value [OF assms(1) prepend(1)]
    from prepend(1) prepend_system_store [OF l]
    have st1: "list_objs st1 = list_objs st
          @ [[length (dict_objs st)], length (dict_objs st) # list_at st l]"
      "dict_objs st1 = dict_objs st
          @ [[''role'' \<mapsto> ''system'', ''content'' \<mapsto> SYSTEM_PROMPT]]"
      by auto
    have "list_at st1 cur = [length (dict_objs st)] @ list_at st l
        \<and> length [length (dict_objs st)] \<le> 1
        \<and> (\<forall>a \<in> set [length (dict_objs st)].
              length (dict_objs st) \<le> a \<and> a < length (dict_objs st1))"
      by (simp add: v(3) st1(2))
    then have "\<exists>pre. list_at st1 cur = pre @ list_at st l \<and> length pre \<le> 1
        \<and> (\<forall>a \<in> set pre. length (dict_objs st) \<le> a \<and> a < length (dict_objs st1))"
      by (rule exI)
    with prepend(2) v(1) v(2) st1 show ?thesis
      by simp
  qed
qed

lemma current_messages_obj_Inl:
  assumes "valid_messages st l" and "current_messages_obj l st = Inl e"
  shows "current_messages (messages_value st l) = Inl e"
  using current_messages_obj_cases [OF assms(1)] assms(2)
  by (auto simp: prepend_system_def split: prod.splits)

lemma current_messages_obj_total:
  assumes "valid_messages st l" and "current_messages (messages_value st l) = Inr B"
  shows "\<exists>cur st1. current_messages_obj l st = Inr (cur, st1) \<and> messages_value st1 cur = B"
proof -
  from current_messages_obj_cases [OF assms(1)] assms(2)
  obtain cur st1 where c: "current_messages_obj l st = Inr (cur, st1)"
    by (cases "prepend_system l st") auto
  from current_messages_obj_Inr [OF assms(1) c] assms(2)
  have "messages_value st1 cur = B"
    by simp
  with c show ?thesis
    by blast
qed

text \<open>What happens after the normalization, on the store it leaves.\<close>

lemma get_agent_response_obj_after_normalization:
  assumes "current_messages_obj l st = Inr (cur, st1)" and "valid_messages st1 cur"
    and "get_agent_response_obj md backend l st w = (r, st', w')"
    and "current_messages B = Inr (messages_value st1 cur)"
  shows "calls w' = calls w @ [(MODEL_NAME md, messages_value st1 cur)]
       \<and> provider w' = snd (backend (provider w) (MODEL_NAME md) (messages_value st1 cur))
       \<and> (\<forall>e. r = Inl e \<longrightarrow> st' = st1
             \<and> fst (get_agent_response md backend B w) = Inl e)
       \<and> (\<forall>u. r = Inr u \<longrightarrow>
             (\<exists>content. u = Suc (length (list_objs st1))
                \<and> list_objs st' = list_objs st1
                     @ [[length (dict_objs st1)], list_at st1 cur @ [length (dict_objs st1)]]
                \<and> dict_objs st' = dict_objs st1
                     @ [[''role'' \<mapsto> ''assistant'', ''content'' \<mapsto> content]]
                \<and> list_at st' u = list_at st1 cur @ [length (dict_objs st1)]
                \<and> messages_value st' u = messages_value st1 cur
                     @ [[''role'' \<mapsto> ''assistant'', ''content'' \<mapsto> content]]
                \<and> fst (get_agent_response md backend B w)
                     = Inr (messages_value st1 cur
                            @ [[''role'' \<mapsto> ''assistant'', ''content'' \<mapsto> content]])))"
proof -
  obtain res p' where bk: "backend (provider w) (MODEL_NAME md) (messages_value st1 cur) = (res, p')"
    by (cases "backend (provider w) (MODEL_NAME md) (messages_value st1 cur)")
  let ?w1 = "\<lparr>calls = calls w @ [(MODEL_NAME md, messages_value st1 cur)], provider = p'\<rparr>"
  have lc: "litellm_completion backend (MODEL_NAME md) (messages_value st1 cur) w = (res, ?w1)"
    by (simp add: litellm_completion_def bk)
  show ?thesis
  proof (cases res)
    case (Inl e)
    with assms(1) assms(3) lc have "r = Inl e" "st' = st1" "w' = ?w1"
      by (auto simp: get_agent_response_obj_def)
    moreover from assms(4) bk Inl have "fst (get_agent_response md backend B w) = Inl e"
      by (simp add: get_agent_response_provider_raises)
    ultimately show ?thesis
      using bk by simp
  next
    case (Inr c)
    show ?thesis
    proof (cases "assistant_reply_content c")
      case (Inl e)
      with assms(1) assms(3) lc \<open>res = Inr c\<close> have "r = Inl e" "st' = st1" "w' = ?w1"
        by (auto simp: get_agent_response_obj_def)
      moreover from assms(4) bk Inl \<open>res = Inr c\<close>
      have "fst (get_agent_response md backend B w) = Inl e"
        by (simp add: get_agent_response_extraction_raises)
      ultimately show ?thesis
        using bk by simp
    next
      case (Inr content)
      obtain u st2 where um: "updated_messages_obj cur content st1 = (u, st2)"
        by (cases "updated_messages_obj cur content st1")
      with assms(1) assms(3) lc \<open>res = Inr c\<close> Inr have "r = Inr u" "st' = st2" "w' = ?w1"
        by (auto simp: get_agent_response_obj_def)
      moreover from assms(4) bk Inr \<open>res = Inr c\<close>
      have "fst (get_agent_response md backend B w)
          = Inr (messages_value st1 cur
                 @ [[''role'' \<mapsto> ''assistant'', ''content'' \<mapsto> content]])"
        by (simp add: get_agent_response_returns)
      moreover note updated_messages_obj_value [OF assms(2) um]
      ultimately show ?thesis
        using bk by auto
    qed
  qed
qed

text \<open>
  The function on the store computes what the function on values computes: the same
  error or, behind the returned reference, the same list of messages, and the same
  world.
\<close>

lemma get_agent_response_obj_refines:
  assumes "valid_messages st l"
    and "get_agent_response_obj md backend l st w = (r, st', w')"
  shows "get_agent_response md backend (messages_value st l) w
           = (map_sum (\<lambda>e. e) (messages_value st') r, w')"
proof (cases "current_messages_obj l st")
  case (Inl e)
  with assms(2) have "r = Inl e" "w' = w"
    by (auto simp: get_agent_response_obj_def)
  moreover from current_messages_obj_Inl [OF assms(1) Inl]
  have "get_agent_response md backend (messages_value st l) w = (Inl e, w)"
    by (rule get_agent_response_raises_before_call)
  ultimately show ?thesis
    by simp
next
  case (Inr p)
  then obtain cur st1 where c: "current_messages_obj l st = Inr (cur, st1)"
    by (cases p) simp
  from current_messages_obj_Inr [OF assms(1) c]
  have v1: "valid_messages st1 cur"
    and b: "current_messages (messages_value st l) = Inr (messages_value st1 cur)"
    by simp_all
  note a = get_agent_response_obj_after_normalization [OF c v1 assms(2) b]
  let ?g = "get_agent_response md backend (messages_value st l) w"
  have "calls (snd ?g) = calls w'"
    using a get_agent_response_calls [OF b, of md backend w] by simp
  moreover have "provider (snd ?g) = provider w'"
    using a get_agent_response_provider [OF b, of md backend w] by simp
  ultimately have "snd ?g = w'"
    by (cases "snd ?g", cases w') simp
  moreover have "fst ?g = map_sum (\<lambda>e. e) (messages_value st') r"
    using a by (cases r) auto
  ultimately show ?thesis
    by (simp add: prod_eq_iff)
qed

section \<open>The sequence sent to the completion capability\<close>

text \<open>
  C1. For every transcript \<open>T\<close> that is empty or whose first turn's role is not
  "system", \<open>get_agent_response\<close> makes one call to the completion capability, and the
  sequence it sends is the default system turn (role "system", content
  \<open>SYSTEM_PROMPT\<close>) followed by all turns of \<open>T\<close> in their order.
\<close>

theorem C1_default_system_turn_prepended:
  assumes "T = [] \<or> (\<exists>r. hd T ''role'' = Some r \<and> r \<noteq> ''system'')"
  shows "calls (snd (get_agent_response md backend T w)) =
           calls w @ [(MODEL_NAME md,
             [''role'' \<mapsto> ''system'', ''content'' \<mapsto> SYSTEM_PROMPT] # T)]"
proof -
  from assms have "current_messages T =
      Inr ([''role'' \<mapsto> ''system'', ''content'' \<mapsto> SYSTEM_PROMPT] # T)"
    by (rule current_messages_prepend)
  then show ?thesis
    by (rule get_agent_response_calls)
qed

theorem C1_witness:
  "(\<exists>r. hd [[''role'' \<mapsto> ''user'', ''content'' \<mapsto> ''What can I make with eggs and spinach?'']]
          ''role'' = Some r \<and> r \<noteq> ''system'')
   \<and> calls (snd (get_agent_response \<lparr>MODEL_NAME = ''gpt-4o-mini''\<rparr>
          (const_backend (Inr (completion_with_content (PStr ''Frittata.''))))
          [[''role'' \<mapsto> ''user'', ''content'' \<mapsto> ''What can I make with eggs and spinach?'']]
          world0))
     = [(''gpt-4o-mini'',
         [[''role'' \<mapsto> ''system'', ''content'' \<mapsto> SYSTEM_PROMPT],
          [''role'' \<mapsto> ''user'', ''content'' \<mapsto> ''What can I make with eggs and spinach?'']])]"
proof -
  let ?T = "[[''role'' \<mapsto> ''user'', ''content'' \<mapsto> ''What can I make with eggs and spinach?'']]"
  have h: "\<exists>r. hd ?T ''role'' = Some r \<and> r \<noteq> ''system''"
    by simp
  then have "?T = [] \<or> (\<exists>r. hd ?T ''role'' = Some r \<and> r \<noteq> ''system'')"
    by (rule disjI2)
  from C1_default_system_turn_prepended [OF this,
      of "\<lparr>MODEL_NAME = ''gpt-4o-mini''\<rparr>"
         "const_backend (Inr (completion_with_content (PStr ''Frittata.'')))" world0]
  show ?thesis
    using h by (simp add: world0_def)
qed

text \<open>
  C2. For every non-empty transcript \<open>T\<close> whose first turn has role "system",
  \<open>get_agent_response\<close> sends \<open>T\<close> itself, unchanged: no system turn is put in front
  of it.
\<close>

theorem C2_system_transcript_sent_unchanged:
  assumes "T \<noteq> []" and "hd T ''role'' = Some ''system''"
  shows "calls (snd (get_agent_response md backend T w)) = calls w @ [(MODEL_NAME md, T)]"
proof -
  from assms have "current_messages T = Inr T"
    by (rule current_messages_keep)
  then show ?thesis
    by (rule get_agent_response_calls)
qed

theorem C2_witness:
  "[[''role'' \<mapsto> ''system'', ''content'' \<mapsto> ''custom instructions''],
    [''role'' \<mapsto> ''user'', ''content'' \<mapsto> ''hi'']] \<noteq> []
   \<and> hd [[''role'' \<mapsto> ''system'', ''content'' \<mapsto> ''custom instructions''],
          [''role'' \<mapsto> ''user'', ''content'' \<mapsto> ''hi'']] ''role'' = Some ''system''
   \<and> calls (snd (get_agent_response \<lparr>MODEL_NAME = ''gpt-4o-mini''\<rparr>
          (const_backend (Inr (completion_with_content (PStr ''Hello.''))))
          [[''role'' \<mapsto> ''system'', ''content'' \<mapsto> ''custom instructions''],
           [''role'' \<mapsto> ''user'', ''content'' \<mapsto> ''hi'']]
          world0))
     = [(''gpt-4o-mini'',
         [[''role'' \<mapsto> ''system'', ''content'' \<mapsto> ''custom instructions''],
          [''role'' \<mapsto> ''user'', ''content'' \<mapsto> ''hi'']])]"
proof -
  let ?T = "[[''role'' \<mapsto> ''system'', ''content'' \<mapsto> ''custom instructions''],
             [''role'' \<mapsto> ''user'', ''content'' \<mapsto> ''hi'']]"
  have h1: "?T \<noteq> []"
    by simp
  have h2: "hd ?T ''role'' = Some ''system''"
    by simp
  from C2_system_transcript_sent_unchanged [OF h1 h2,
      of "\<lparr>MODEL_NAME = ''gpt-4o-mini''\<rparr>"
         "const_backend (Inr (completion_with_content (PStr ''Hello.'')))" world0]
  show ?thesis
    using h2 by (simp add: world0_def)
qed



section \<open>The output on success\<close>

text \<open>
  C3. When the completion call succeeds, that is, it returns a completion whose first
  choice has a message with text content, the output of \<open>get_agent_response\<close> is the
  system-normalized input sequence followed by exactly one new turn, whose role is
  "assistant". Conversely every output the function returns is the normalized sequence
  followed by one assistant turn: nothing else is added, removed or reordered.
\<close>

theorem C3_output_is_basis_plus_one_assistant_turn:
  "(current_messages T = Inr B
      \<and> backend (provider w) (MODEL_NAME md) B = (Inr (PDict cd), p')
      \<and> map_of cd ''choices'' = Some (PList (PDict chd # chs))
      \<and> map_of chd ''message'' = Some (PDict msg)
      \<and> map_of msg ''content'' = Some (PStr s)
    \<longrightarrow> (\<exists>a. fst (get_agent_response md backend T w) = Inr (B @ [a])
           \<and> a ''role'' = Some ''assistant'' \<and> dom a = {''role'', ''content''}))
   \<and> (fst (get_agent_response md backend T w) = Inr out
    \<longrightarrow> (\<exists>B' a. current_messages T = Inr B' \<and> out = B' @ [a]
           \<and> a ''role'' = Some ''assistant'' \<and> dom a = {''role'', ''content''}))"
proof (intro conjI impI)
  assume h: "current_messages T = Inr B
      \<and> backend (provider w) (MODEL_NAME md) B = (Inr (PDict cd), p')
      \<and> map_of cd ''choices'' = Some (PList (PDict chd # chs))
      \<and> map_of chd ''message'' = Some (PDict msg)
      \<and> map_of msg ''content'' = Some (PStr s)"
  then have h1: "current_messages T = Inr B"
    and h2: "backend (provider w) (MODEL_NAME md) B = (Inr (PDict cd), p')"
    and h3: "map_of cd ''choices'' = Some (PList (PDict chd # chs))"
    and h4: "map_of chd ''message'' = Some (PDict msg)"
    and h5: "map_of msg ''content'' = Some (PStr s)"
    by simp_all
  have "assistant_reply_content (PDict cd) = Inr (strip s)"
    by (rule assistant_reply_content_text [OF refl h3 h4 h5])
  with h1 h2 have "get_agent_response md backend T w =
      (Inr (B @ [[''role'' \<mapsto> ''assistant'', ''content'' \<mapsto> strip s]]),
       \<lparr>calls = calls w @ [(MODEL_NAME md, B)], provider = p'\<rparr>)"
    by (rule get_agent_response_returns)
  then have "fst (get_agent_response md backend T w) =
      Inr (B @ [[''role'' \<mapsto> ''assistant'', ''content'' \<mapsto> strip s]])"
    by simp
  moreover have "[''role'' \<mapsto> ''assistant'', ''content'' \<mapsto> strip s] ''role'' = Some ''assistant''"
    by simp
  moreover have "dom [''role'' \<mapsto> ''assistant'', ''content'' \<mapsto> strip s] = {''role'', ''content''}"
    by auto
  ultimately show "\<exists>a. fst (get_agent_response md backend T w) = Inr (B @ [a])
      \<and> a ''role'' = Some ''assistant'' \<and> dom a = {''role'', ''content''}"
    by blast
next
  assume "fst (get_agent_response md backend T w) = Inr out"
  then obtain B' s' where b: "current_messages T = Inr B'"
    and o: "out = B' @ [[''role'' \<mapsto> ''assistant'', ''content'' \<mapsto> s']]"
    using get_agent_response_returned by blast
  have "[''role'' \<mapsto> ''assistant'', ''content'' \<mapsto> s'] ''role'' = Some ''assistant''"
    by simp
  moreover have "dom [''role'' \<mapsto> ''assistant'', ''content'' \<mapsto> s'] = {''role'', ''content''}"
    by auto
  ultimately show "\<exists>B' a. current_messages T = Inr B' \<and> out = B' @ [a]
      \<and> a ''role'' = Some ''assistant'' \<and> dom a = {''role'', ''content''}"
    using b o by blast
qed

theorem C3_witness:
  "current_messages [[''role'' \<mapsto> ''user'', ''content'' \<mapsto> ''hi'']]
     = Inr [[''role'' \<mapsto> ''system'', ''content'' \<mapsto> SYSTEM_PROMPT],
            [''role'' \<mapsto> ''user'', ''content'' \<mapsto> ''hi'']]
   \<and> (\<exists>a. fst (get_agent_response \<lparr>MODEL_NAME = ''gpt-4o-mini''\<rparr>
          (const_backend (Inr (completion_with_content (PStr ''Hello.''))))
          [[''role'' \<mapsto> ''user'', ''content'' \<mapsto> ''hi'']] world0)
        = Inr ([[''role'' \<mapsto> ''system'', ''content'' \<mapsto> SYSTEM_PROMPT],
                [''role'' \<mapsto> ''user'', ''content'' \<mapsto> ''hi'']] @ [a])
      \<and> a ''role'' = Some ''assistant'' \<and> dom a = {''role'', ''content''})"
proof -
  let ?T = "[[''role'' \<mapsto> ''user'', ''content'' \<mapsto> ''hi'']]"
  let ?B = "[[''role'' \<mapsto> ''system'', ''content'' \<mapsto> SYSTEM_PROMPT],
             [''role'' \<mapsto> ''user'', ''content'' \<mapsto> ''hi'']]"
  let ?msg = "[(''role'', PStr ''assistant''), (''content'', PStr ''Hello.'')]"
  let ?chd = "[(''message'', PDict ?msg)]"
  let ?cd = "[(''choices'', PList [PDict ?chd])]"
  let ?backend = "const_backend (Inr (completion_with_content (PStr ''Hello.''))) :: unit backend"
  have b: "current_messages ?T = Inr ?B"
    by (simp add: current_messages_def dict_getitem_def)
  have c: "?backend (provider world0) (MODEL_NAME \<lparr>MODEL_NAME = ''gpt-4o-mini''\<rparr>) ?B
             = (Inr (PDict ?cd), ())"
    by (simp add: const_backend_def completion_with_content_def)
  have "map_of ?cd ''choices'' = Some (PList (PDict ?chd # []))"
    and "map_of ?chd ''message'' = Some (PDict ?msg)"
    and "map_of ?msg ''content'' = Some (PStr ''Hello.'')"
    by simp_all
  with b c C3_output_is_basis_plus_one_assistant_turn
    [of ?T ?B ?backend world0 "\<lparr>MODEL_NAME = ''gpt-4o-mini''\<rparr>" ?cd "()" ?chd "[]" ?msg "''Hello.''"]
  show ?thesis
    by blast
qed

text \<open>
  C4. The content of the appended assistant turn is the raw completion text with its
  leading and trailing whitespace removed: the raw text is a run of whitespace, the
  content, and a run of whitespace, and the content neither starts nor ends with a
  whitespace character. For the empty transcript and the raw text " Hello! " the output
  is the default system turn followed by the assistant turn with content "Hello!".
\<close>

theorem C4_assistant_content_is_stripped:
  assumes "current_messages T = Inr B"
    and "backend (provider w) (MODEL_NAME md) B = (Inr (PDict cd), p')"
    and "map_of cd ''choices'' = Some (PList (PDict chd # chs))"
    and "map_of chd ''message'' = Some (PDict msg)"
    and "map_of msg ''content'' = Some (PStr s)"
  shows "\<exists>content pre post.
           fst (get_agent_response md backend T w)
             = Inr (B @ [[''role'' \<mapsto> ''assistant'', ''content'' \<mapsto> content]])
           \<and> content = strip s
           \<and> s = pre @ content @ post
           \<and> (\<forall>c \<in> set pre. py_isspace c) \<and> (\<forall>c \<in> set post. py_isspace c)
           \<and> (content \<noteq> [] \<longrightarrow> \<not> py_isspace (hd content) \<and> \<not> py_isspace (last content))"
proof -
  have "assistant_reply_content (PDict cd) = Inr (strip s)"
    by (rule assistant_reply_content_text [OF refl assms(3) assms(4) assms(5)])
  with assms(1) assms(2) have "get_agent_response md backend T w =
      (Inr (B @ [[''role'' \<mapsto> ''assistant'', ''content'' \<mapsto> strip s]]),
       \<lparr>calls = calls w @ [(MODEL_NAME md, B)], provider = p'\<rparr>)"
    by (rule get_agent_response_returns)
  then have out: "fst (get_agent_response md backend T w) =
      Inr (B @ [[''role'' \<mapsto> ''assistant'', ''content'' \<mapsto> strip s]])"
    by simp
  let ?pre = "takeWhile py_isspace s"
  let ?post = "rev (takeWhile py_isspace (rev (dropWhile py_isspace s)))"
  have dec: "s = ?pre @ strip s @ ?post"
    by (rule strip_decomposition)
  have pre: "\<forall>c \<in> set ?pre. py_isspace c"
    by (auto dest: set_takeWhileD)
  have post: "\<forall>c \<in> set ?post. py_isspace c"
    by (auto dest: set_takeWhileD)
  have ends: "strip s \<noteq> [] \<longrightarrow> \<not> py_isspace (hd (strip s)) \<and> \<not> py_isspace (last (strip s))"
    using strip_no_leading_space strip_no_trailing_space by blast
  from out dec pre post ends show ?thesis
    by blast
qed

theorem C4_witness:
  "current_messages [] = Inr [[''role'' \<mapsto> ''system'', ''content'' \<mapsto> SYSTEM_PROMPT]]
   \<and> fst (get_agent_response \<lparr>MODEL_NAME = ''gpt-4o-mini''\<rparr>
          (const_backend (Inr (completion_with_content (PStr '' Hello! '')))) [] world0)
     = Inr [[''role'' \<mapsto> ''system'', ''content'' \<mapsto> SYSTEM_PROMPT],
            [''role'' \<mapsto> ''assistant'', ''content'' \<mapsto> ''Hello!'']]"
proof -
  let ?B = "[[''role'' \<mapsto> ''system'', ''content'' \<mapsto> SYSTEM_PROMPT]]"
  let ?msg = "[(''role'', PStr ''assistant''), (''content'', PStr '' Hello! '')]"
  let ?chd = "[(''message'', PDict ?msg)]"
  let ?cd = "[(''choices'', PList [PDict ?chd])]"
  let ?backend = "const_backend (Inr (completion_with_content (PStr '' Hello! ''))) :: unit backend"
  have b: "current_messages [] = Inr ?B"
    by (simp add: current_messages_def)
  have c: "?backend (provider world0) (MODEL_NAME \<lparr>MODEL_NAME = ''gpt-4o-mini''\<rparr>) ?B
             = (Inr (PDict ?cd), ())"
    by (simp add: const_backend_def completion_with_content_def)
  have s: "strip '' Hello! '' = ''Hello!''"
    by (simp add: strip_def py_isspace_def)
  have "map_of ?cd ''choices'' = Some (PList (PDict ?chd # []))"
    and "map_of ?chd ''message'' = Some (PDict ?msg)"
    and "map_of ?msg ''content'' = Some (PStr '' Hello! '')"
    by simp_all
  with b c C4_assistant_content_is_stripped
    [of "[]" ?B ?backend world0 "\<lparr>MODEL_NAME = ''gpt-4o-mini''\<rparr>" ?cd "()" ?chd "[]" ?msg
        "'' Hello! ''"]
  have "fst (get_agent_response \<lparr>MODEL_NAME = ''gpt-4o-mini''\<rparr> ?backend [] world0)
          = Inr (?B @ [[''role'' \<mapsto> ''assistant'', ''content'' \<mapsto> strip '' Hello! '']])"
    by blast
  with b s show ?thesis
    by simp
qed


section \<open>Failure of the completion call\<close>

text \<open>
  C5. When the completion call fails, \<open>get_agent_response\<close> fails with the very error
  the capability raised, detail included; the capability has been called exactly once
  (no retry, no recovery), and no transcript is returned. On the store, the caller's
  list and its messages are what they were before the call: objects are only added.
\<close>

theorem C5_provider_error_propagates:
  assumes "current_messages T = Inr B"
    and "backend (provider w) (MODEL_NAME md) B = (Inl e, p')"
  shows "get_agent_response md backend T w
           = (Inl e, \<lparr>calls = calls w @ [(MODEL_NAME md, B)], provider = p'\<rparr>)
       \<and> (\<forall>st messages. valid_messages st messages \<and> messages_value st messages = T \<longrightarrow>
             (\<exists>st'. get_agent_response_obj md backend messages st w
                      = (Inl e, st', \<lparr>calls = calls w @ [(MODEL_NAME md, B)], provider = p'\<rparr>)
                \<and> list_at st' messages = list_at st messages
                \<and> messages_value st' messages = T
                \<and> (\<exists>nl nd. list_objs st' = list_objs st @ nl
                             \<and> dict_objs st' = dict_objs st @ nd)))"
proof (intro conjI allI impI)
  from assms show pure: "get_agent_response md backend T w
      = (Inl e, \<lparr>calls = calls w @ [(MODEL_NAME md, B)], provider = p'\<rparr>)"
    by (rule get_agent_response_provider_raises)
  fix st messages
  assume "valid_messages st messages \<and> messages_value st messages = T"
  then have v: "valid_messages st messages" and t: "messages_value st messages = T"
    by simp_all
  from assms(1) t have "current_messages (messages_value st messages) = Inr B"
    by simp
  from current_messages_obj_total [OF v this]
  obtain cur st1 where c: "current_messages_obj messages st = Inr (cur, st1)"
    and b: "messages_value st1 cur = B"
    by blast
  note n = current_messages_obj_Inr [OF v c]
  then obtain nl nd where ext: "list_objs st1 = list_objs st @ nl" "dict_objs st1 = dict_objs st @ nd"
    by blast
  obtain r st' w' where g: "get_agent_response_obj md backend messages st w = (r, st', w')"
    by (cases "get_agent_response_obj md backend messages st w")
  from n have "valid_messages st1 cur"
    and "current_messages T = Inr (messages_value st1 cur)"
    using t by simp_all
  note a = get_agent_response_obj_after_normalization [OF c this(1) g this(2)]
  from a assms(2) b have w': "w' = \<lparr>calls = calls w @ [(MODEL_NAME md, B)], provider = p'\<rparr>"
    by (cases w') simp
  have r: "r = Inl e \<and> st' = st1"
  proof (cases r)
    case (Inl e')
    with a pure show ?thesis
      by simp
  next
    case (Inr u)
    with a pure show ?thesis
      by auto
  qed
  from messages_value_extend [OF v ext] t r
  have "list_at st' messages = list_at st messages" and "messages_value st' messages = T"
    by simp_all
  with g w' r ext
  show "\<exists>st'. get_agent_response_obj md backend messages st w
                      = (Inl e, st', \<lparr>calls = calls w @ [(MODEL_NAME md, B)], provider = p'\<rparr>)
                \<and> list_at st' messages = list_at st messages
                \<and> messages_value st' messages = T
                \<and> (\<exists>nl nd. list_objs st' = list_objs st @ nl
                             \<and> dict_objs st' = dict_objs st @ nd)"
    by blast
qed

theorem C5_witness:
  "current_messages [[''role'' \<mapsto> ''user'', ''content'' \<mapsto> ''hi'']]
     = Inr [[''role'' \<mapsto> ''system'', ''content'' \<mapsto> SYSTEM_PROMPT],
            [''role'' \<mapsto> ''user'', ''content'' \<mapsto> ''hi'']]
   \<and> get_agent_response \<lparr>MODEL_NAME = ''gpt-4o-mini''\<rparr>
        (const_backend (Inl (ProviderError ''AuthenticationError: invalid api key'')))
        [[''role'' \<mapsto> ''user'', ''content'' \<mapsto> ''hi'']] world0
     = (Inl (ProviderError ''AuthenticationError: invalid api key''),
        \<lparr>calls = [(''gpt-4o-mini'',
                    [[''role'' \<mapsto> ''system'', ''content'' \<mapsto> SYSTEM_PROMPT],
                     [''role'' \<mapsto> ''user'', ''content'' \<mapsto> ''hi'']])],
           provider = ()\<rparr>)
   \<and> valid_messages store0 0
   \<and> messages_value store0 0 = [[''role'' \<mapsto> ''user'', ''content'' \<mapsto> ''hi'']]
   \<and> (\<exists>st'. get_agent_response_obj \<lparr>MODEL_NAME = ''gpt-4o-mini''\<rparr>
          (const_backend (Inl (ProviderError ''AuthenticationError: invalid api key'')))
          0 store0 world0
        = (Inl (ProviderError ''AuthenticationError: invalid api key''), st',
           \<lparr>calls = [(''gpt-4o-mini'',
                       [[''role'' \<mapsto> ''system'', ''content'' \<mapsto> SYSTEM_PROMPT],
                        [''role'' \<mapsto> ''user'', ''content'' \<mapsto> ''hi'']])],
              provider = ()\<rparr>)
      \<and> list_at st' 0 = [0]
      \<and> messages_value st' 0 = [[''role'' \<mapsto> ''user'', ''content'' \<mapsto> ''hi'']])"
proof -
  let ?md = "\<lparr>MODEL_NAME = ''gpt-4o-mini''\<rparr>"
  let ?e = "ProviderError ''AuthenticationError: invalid api key''"
  let ?backend = "const_backend (Inl ?e) :: unit backend"
  let ?T = "[[''role'' \<mapsto> ''user'', ''content'' \<mapsto> ''hi'']]"
  let ?B = "[[''role'' \<mapsto> ''system'', ''content'' \<mapsto> SYSTEM_PROMPT],
             [''role'' \<mapsto> ''user'', ''content'' \<mapsto> ''hi'']]"
  have b: "current_messages ?T = Inr ?B"
    by (simp add: current_messages_def dict_getitem_def)
  have c: "?backend (provider world0) (MODEL_NAME ?md) ?B = (Inl ?e, ())"
    by (simp add: const_backend_def)
  have v: "valid_messages store0 0"
    by (simp add: valid_messages_def store0_def list_at_def)
  have t: "messages_value store0 0 = ?T"
    by (simp add: messages_value_def store0_def list_at_def dict_at_def)
  have l: "list_at store0 0 = [0]"
    by (simp add: store0_def list_at_def)
  note C5 = C5_provider_error_propagates [of ?T ?B ?backend world0 ?md ?e "()"]
  from C5 b c have pure: "get_agent_response ?md ?backend ?T world0
      = (Inl ?e, \<lparr>calls = calls world0 @ [(MODEL_NAME ?md, ?B)], provider = ()\<rparr>)"
    by blast
  from C5 b c v t have "\<exists>st'. get_agent_response_obj ?md ?backend 0 store0 world0
        = (Inl ?e, st', \<lparr>calls = calls world0 @ [(MODEL_NAME ?md, ?B)], provider = ()\<rparr>)
      \<and> list_at st' 0 = list_at store0 0
      \<and> messages_value st' 0 = ?T
      \<and> (\<exists>nl nd. list_objs st' = list_objs store0 @ nl \<and> dict_objs st' = dict_objs store0 @ nd)"
    by blast
  with l have "\<exists>st'. get_agent_response_obj ?md ?backend 0 store0 world0
        = (Inl ?e, st', \<lparr>calls = calls world0 @ [(MODEL_NAME ?md, ?B)], provider = ()\<rparr>)
      \<and> list_at st' 0 = [0]
      \<and> messages_value st' 0 = ?T"
    by auto
  with b pure v t show ?thesis
    by (simp add: world0_def)
qed

section \<open>Completions without usable text\<close>

text \<open>
  C6 (as amended). When the completion capability returns a result without the key
  "choices", with an empty list of choices, with a first choice without "message", with
  a message without "content", or with a content that is \<^verbatim>\<open>None\<close>,
  \<open>get_agent_response\<close> fails with the error Python raises at that lookup
  (\<^verbatim>\<open>KeyError\<close>, \<^verbatim>\<open>IndexError\<close>, \<^verbatim>\<open>AttributeError\<close>) and returns no transcript. When
  the content is text that is empty or whitespace only, it does not fail: it returns
  the normalized sequence followed by an assistant turn with empty content.
\<close>

theorem C6_malformed_completion_raises_empty_text_returns:
  assumes "current_messages T = Inr B"
    and "backend (provider w) (MODEL_NAME md) B = (Inr (PDict cd), p')"
  shows "(map_of cd ''choices'' = None
            \<longrightarrow> fst (get_agent_response md backend T w) = Inl (KeyError (KStr ''choices'')))
       \<and> (map_of cd ''choices'' = Some (PList [])
            \<longrightarrow> fst (get_agent_response md backend T w) = Inl IndexError)
       \<and> (map_of cd ''choices'' = Some (PList (PDict chd # chs))
              \<and> map_of chd ''message'' = None
            \<longrightarrow> fst (get_agent_response md backend T w) = Inl (KeyError (KStr ''message'')))
       \<and> (map_of cd ''choices'' = Some (PList (PDict chd # chs))
              \<and> map_of chd ''message'' = Some (PDict msg)
              \<and> map_of msg ''content'' = None
            \<longrightarrow> fst (get_agent_response md backend T w) = Inl (KeyError (KStr ''content'')))
       \<and> (map_of cd ''choices'' = Some (PList (PDict chd # chs))
              \<and> map_of chd ''message'' = Some (PDict msg)
              \<and> map_of msg ''content'' = Some PNone
            \<longrightarrow> fst (get_agent_response md backend T w) = Inl AttributeError)
       \<and> (map_of cd ''choices'' = Some (PList (PDict chd # chs))
              \<and> map_of chd ''message'' = Some (PDict msg)
              \<and> map_of msg ''content'' = Some (PStr s)
              \<and> (\<forall>c \<in> set s. py_isspace c)
            \<longrightarrow> fst (get_agent_response md backend T w)
                  = Inr (B @ [[''role'' \<mapsto> ''assistant'', ''content'' \<mapsto> '''']]))"
proof -
  have raises: "fst (get_agent_response md backend T w) = Inl e"
    if "assistant_reply_content (PDict cd) = Inl e" for e
    using assms that
      get_agent_response_extraction_raises [of T B backend w md "PDict cd" p' e]
    by simp
  have returns: "fst (get_agent_response md backend T w)
      = Inr (B @ [[''role'' \<mapsto> ''assistant'', ''content'' \<mapsto> t]])"
    if "assistant_reply_content (PDict cd) = Inr t" for t
    using assms that
      get_agent_response_returns [of T B backend w md "PDict cd" p' t]
    by simp
  have 1: "map_of cd ''choices'' = None
      \<longrightarrow> fst (get_agent_response md backend T w) = Inl (KeyError (KStr ''choices''))"
    by (auto intro!: raises simp: assistant_reply_content_def)
  have 2: "map_of cd ''choices'' = Some (PList [])
      \<longrightarrow> fst (get_agent_response md backend T w) = Inl IndexError"
    by (auto intro!: raises simp: assistant_reply_content_def seq_index_def)
  have 3: "map_of cd ''choices'' = Some (PList (PDict chd # chs))
        \<and> map_of chd ''message'' = None
      \<longrightarrow> fst (get_agent_response md backend T w) = Inl (KeyError (KStr ''message''))"
    by (auto intro!: raises simp: assistant_reply_content_def seq_index_def)
  have 4: "map_of cd ''choices'' = Some (PList (PDict chd # chs))
        \<and> map_of chd ''message'' = Some (PDict msg)
        \<and> map_of msg ''content'' = None
      \<longrightarrow> fst (get_agent_response md backend T w) = Inl (KeyError (KStr ''content''))"
    by (auto intro!: raises simp: assistant_reply_content_def seq_index_def)
  have 5: "map_of cd ''choices'' = Some (PList (PDict chd # chs))
        \<and> map_of chd ''message'' = Some (PDict msg)
        \<and> map_of msg ''content'' = Some PNone
      \<longrightarrow> fst (get_agent_response md backend T w) = Inl AttributeError"
    by (auto intro!: raises simp: assistant_reply_content_def seq_index_def)
  have 6: "map_of cd ''choices'' = Some (PList (PDict chd # chs))
        \<and> map_of chd ''message'' = Some (PDict msg)
        \<and> map_of msg ''content'' = Some (PStr s)
        \<and> (\<forall>c \<in> set s. py_isspace c)
      \<longrightarrow> fst (get_agent_response md backend T w)
            = Inr (B @ [[''role'' \<mapsto> ''assistant'', ''content'' \<mapsto> '''']])"
  proof (intro impI, elim conjE)
    assume a: "map_of cd ''choices'' = Some (PList (PDict chd # chs))"
      "map_of chd ''message'' = Some (PDict msg)"
      "map_of msg ''content'' = Some (PStr s)"
      and sp: "\<forall>c \<in> set s. py_isspace c"
    have "assistant_reply_content (PDict cd) = Inr (strip s)"
      by (rule assistant_reply_content_text [OF refl a])
    moreover from sp have "strip s = ''''"
      by (rule strip_all_space)
    ultimately show "fst (get_agent_response md backend T w)
        = Inr (B @ [[''role'' \<mapsto> ''assistant'', ''content'' \<mapsto> '''']])"
      using returns by simp
  qed
  from 1 2 3 4 5 6 show ?thesis
    by (intro conjI)
qed

text \<open>
  The claim as first stated, that an empty content makes the function fail, does not
  hold: for the empty transcript and a completion whose content is the empty string the
  function returns the default system turn and an assistant turn with empty content.
\<close>

theorem C6_counterexample:
  "fst (get_agent_response \<lparr>MODEL_NAME = ''gpt-4o-mini''\<rparr>
          (const_backend (Inr (completion_with_content (PStr '''')))) [] world0)
     = Inr [[''role'' \<mapsto> ''system'', ''content'' \<mapsto> SYSTEM_PROMPT],
            [''role'' \<mapsto> ''assistant'', ''content'' \<mapsto> '''']]"
  by (simp add: get_agent_response_def current_messages_def litellm_completion_def
      const_backend_def assistant_reply_content_mock strip_def world0_def)

theorem C6_witness:
  "current_messages [] = Inr [[''role'' \<mapsto> ''system'', ''content'' \<mapsto> SYSTEM_PROMPT]]
   \<and> fst (get_agent_response \<lparr>MODEL_NAME = ''gpt-4o-mini''\<rparr>
          (const_backend (Inr (PDict [(''choices'', PList [])]))) [] world0)
     = Inl IndexError
   \<and> fst (get_agent_response \<lparr>MODEL_NAME = ''gpt-4o-mini''\<rparr>
          (const_backend (Inr (PDict []))) [] world0)
     = Inl (KeyError (KStr ''choices''))
   \<and> fst (get_agent_response \<lparr>MODEL_NAME = ''gpt-4o-mini''\<rparr>
          (const_backend (Inr (PDict [(''choices'', PList [PDict []])]))) [] world0)
     = Inl (KeyError (KStr ''message''))
   \<and> fst (get_agent_response \<lparr>MODEL_NAME = ''gpt-4o-mini''\<rparr>
          (const_backend (Inr (PDict [(''choices'', PList [PDict [(''message'', PDict [])]])])))
          [] world0)
     = Inl (KeyError (KStr ''content''))
   \<and> fst (get_agent_response \<lparr>MODEL_NAME = ''gpt-4o-mini''\<rparr>
          (const_backend (Inr (completion_with_content PNone))) [] world0)
     = Inl AttributeError
   \<and> fst (get_agent_response \<lparr>MODEL_NAME = ''gpt-4o-mini''\<rparr>
          (const_backend (Inr (completion_with_content (PStr ''  '')))) [] world0)
     = Inr [[''role'' \<mapsto> ''system'', ''content'' \<mapsto> SYSTEM_PROMPT],
            [''role'' \<mapsto> ''assistant'', ''content'' \<mapsto> '''']]"
proof -
  let ?md = "\<lparr>MODEL_NAME = ''gpt-4o-mini''\<rparr>"
  let ?B = "[[''role'' \<mapsto> ''system'', ''content'' \<mapsto> SYSTEM_PROMPT]]"
  have b: "current_messages [] = Inr ?B"
    by (simp add: current_messages_def)
  have c1: "(const_backend (Inr (PDict [(''choices'', PList [])])) :: unit backend)
      (provider world0) (MODEL_NAME ?md) ?B = (Inr (PDict [(''choices'', PList [])]), ())"
    by (simp add: const_backend_def)
  have r1: "fst (get_agent_response ?md
      (const_backend (Inr (PDict [(''choices'', PList [])]))) [] world0) = Inl IndexError"
    using b c1 C6_malformed_completion_raises_empty_text_returns
      [of "[]" ?B "const_backend (Inr (PDict [(''choices'', PList [])]))" world0 ?md
          "[(''choices'', PList [])]" "()"]
    by simp
  let ?msg2 = "[(''role'', PStr ''assistant''), (''content'', PNone)]"
  let ?chd2 = "[(''message'', PDict ?msg2)]"
  have c2: "(const_backend (Inr (completion_with_content PNone)) :: unit backend)
      (provider world0) (MODEL_NAME ?md) ?B = (Inr (PDict [(''choices'', PList [PDict ?chd2])]), ())"
    by (simp add: const_backend_def completion_with_content_def)
  have r2: "fst (get_agent_response ?md
      (const_backend (Inr (completion_with_content PNone))) [] world0) = Inl AttributeError"
    using b c2 C6_malformed_completion_raises_empty_text_returns
      [of "[]" ?B "const_backend (Inr (completion_with_content PNone))" world0 ?md
          "[(''choices'', PList [PDict ?chd2])]" "()" ?chd2 "[]" ?msg2]
    by simp
  let ?msg3 = "[(''role'', PStr ''assistant''), (''content'', PStr ''  '')]"
  let ?chd3 = "[(''message'', PDict ?msg3)]"
  have c3: "(const_backend (Inr (completion_with_content (PStr ''  ''))) :: unit backend)
      (provider world0) (MODEL_NAME ?md) ?B = (Inr (PDict [(''choices'', PList [PDict ?chd3])]), ())"
    by (simp add: const_backend_def completion_with_content_def)
  have r3: "fst (get_agent_response ?md
      (const_backend (Inr (completion_with_content (PStr ''  '')))) [] world0)
      = Inr (?B @ [[''role'' \<mapsto> ''assistant'', ''content'' \<mapsto> '''']])"
    using b c3 C6_malformed_completion_raises_empty_text_returns
      [of "[]" ?B "const_backend (Inr (completion_with_content (PStr ''  '')))" world0 ?md
          "[(''choices'', PList [PDict ?chd3])]" "()" ?chd3 "[]" ?msg3 "''  ''"]
    by (simp add: py_isspace_def)
  have c4: "(const_backend (Inr (PDict [])) :: unit backend)
      (provider world0) (MODEL_NAME ?md) ?B = (Inr (PDict []), ())"
    by (simp add: const_backend_def)
  have r4: "fst (get_agent_response ?md (const_backend (Inr (PDict []))) [] world0)
      = Inl (KeyError (KStr ''choices''))"
    using b c4 C6_malformed_completion_raises_empty_text_returns
      [of "[]" ?B "const_backend (Inr (PDict []))" world0 ?md "[]" "()"]
    by simp
  let ?cd5 = "[(''choices'', PList [PDict []])]"
  have c5: "(const_backend (Inr (PDict ?cd5)) :: unit backend)
      (provider world0) (MODEL_NAME ?md) ?B = (Inr (PDict ?cd5), ())"
    by (simp add: const_backend_def)
  have r5: "fst (get_agent_response ?md (const_backend (Inr (PDict ?cd5))) [] world0)
      = Inl (KeyError (KStr ''message''))"
    using b c5 C6_malformed_completion_raises_empty_text_returns
      [of "[]" ?B "const_backend (Inr (PDict ?cd5))" world0 ?md ?cd5 "()" "[]" "[]"]
    by simp
  let ?chd6 = "[(''message'', PDict [])]"
  let ?cd6 = "[(''choices'', PList [PDict ?chd6])]"
  have c6: "(const_backend (Inr (PDict ?cd6)) :: unit backend)
      (provider world0) (MODEL_NAME ?md) ?B = (Inr (PDict ?cd6), ())"
    by (simp add: const_backend_def)
  have r6: "fst (get_agent_response ?md (const_backend (Inr (PDict ?cd6))) [] world0)
      = Inl (KeyError (KStr ''content''))"
    using b c6 C6_malformed_completion_raises_empty_text_returns
      [of "[]" ?B "const_backend (Inr (PDict ?cd6))" world0 ?md ?cd6 "()" ?chd6 "[]" "[]"]
    by simp
  from b r1 r2 r3 r4 r5 r6 show ?thesis
    by simp
qed

section \<open>The model identifier\<close>

text \<open>
  C7. The model identifier is read once, when the module is imported, from the
  environment variable \<^verbatim>\<open>MODEL_NAME\<close>: it is the variable's value when the variable is
  set and "gpt-4o-mini" when it is not. Every call that \<open>get_agent_response\<close> makes to
  the completion capability carries this identifier; when the input can be normalized
  there is exactly one such call.
\<close>

theorem C7_model_identifier_from_environment:
  assumes "import_utils load_dotenv environ = (md, environ')"
  shows "(environ' ''MODEL_NAME'' = Some v \<longrightarrow> MODEL_NAME md = v)
       \<and> (environ' ''MODEL_NAME'' = None \<longrightarrow> MODEL_NAME md = ''gpt-4o-mini'')
       \<and> (\<forall>c \<in> set (drop (length (calls w)) (calls (snd (get_agent_response md backend T w)))).
             fst c = MODEL_NAME md)
       \<and> (current_messages T = Inr B \<longrightarrow>
             calls (snd (get_agent_response md backend T w)) = calls w @ [(MODEL_NAME md, B)])"
proof -
  from assms have md: "MODEL_NAME md = os_environ_get environ' ''MODEL_NAME'' ''gpt-4o-mini''"
    by (auto simp: import_utils_def Let_def)
  have 1: "environ' ''MODEL_NAME'' = Some v \<longrightarrow> MODEL_NAME md = v"
    by (simp add: md os_environ_get_def)
  have 2: "environ' ''MODEL_NAME'' = None \<longrightarrow> MODEL_NAME md = ''gpt-4o-mini''"
    by (simp add: md os_environ_get_def)
  have 3: "\<forall>c \<in> set (drop (length (calls w)) (calls (snd (get_agent_response md backend T w)))).
      fst c = MODEL_NAME md"
  proof (cases "current_messages T")
    case (Inl e)
    then show ?thesis
      by (simp add: get_agent_response_raises_before_call)
  next
    case (Inr B')
    then show ?thesis
      by (simp add: get_agent_response_calls)
  qed
  have 4: "current_messages T = Inr B \<longrightarrow>
      calls (snd (get_agent_response md backend T w)) = calls w @ [(MODEL_NAME md, B)]"
    by (simp add: get_agent_response_calls)
  from 1 2 3 4 show ?thesis
    by (intro conjI)
qed

theorem C7_witness:
  "import_utils (\<lambda>e. e) [''MODEL_NAME'' \<mapsto> ''gpt-4.1-nano'']
     = (\<lparr>MODEL_NAME = ''gpt-4.1-nano''\<rparr>, [''MODEL_NAME'' \<mapsto> ''gpt-4.1-nano''])
   \<and> import_utils (\<lambda>e. e) Map.empty = (\<lparr>MODEL_NAME = ''gpt-4o-mini''\<rparr>, Map.empty)
   \<and> calls (snd (get_agent_response (fst (import_utils (\<lambda>e. e) [''MODEL_NAME'' \<mapsto> ''gpt-4.1-nano'']))
        (const_backend (Inr (completion_with_content (PStr ''Hello.'')))) [] world0))
     = [(''gpt-4.1-nano'', [[''role'' \<mapsto> ''system'', ''content'' \<mapsto> SYSTEM_PROMPT]])]
   \<and> calls (snd (get_agent_response (fst (import_utils (\<lambda>e. e) Map.empty))
        (const_backend (Inr (completion_with_content (PStr ''Hello.'')))) [] world0))
     = [(''gpt-4o-mini'', [[''role'' \<mapsto> ''system'', ''content'' \<mapsto> SYSTEM_PROMPT]])]"
proof -
  let ?env = "[''MODEL_NAME'' \<mapsto> ''gpt-4.1-nano'']"
  let ?B = "[[''role'' \<mapsto> ''system'', ''content'' \<mapsto> SYSTEM_PROMPT]]"
  let ?backend = "const_backend (Inr (completion_with_content (PStr ''Hello.''))) :: unit backend"
  have i1: "import_utils (\<lambda>e. e) ?env = (\<lparr>MODEL_NAME = ''gpt-4.1-nano''\<rparr>, ?env)"
    by (simp add: import_utils_def os_environ_get_def)
  have i2: "import_utils (\<lambda>e. e) Map.empty = (\<lparr>MODEL_NAME = ''gpt-4o-mini''\<rparr>, Map.empty)"
    by (simp add: import_utils_def os_environ_get_def)
  have b: "current_messages [] = Inr ?B"
    by (simp add: current_messages_def)
  have r1: "calls (snd (get_agent_response \<lparr>MODEL_NAME = ''gpt-4.1-nano''\<rparr> ?backend [] world0))
      = [(''gpt-4.1-nano'', ?B)]"
    using b C7_model_identifier_from_environment
      [OF i1, of "''gpt-4.1-nano''" world0 ?backend "[]" ?B]
    by (simp add: world0_def)
  have r2: "calls (snd (get_agent_response \<lparr>MODEL_NAME = ''gpt-4o-mini''\<rparr> ?backend [] world0))
      = [(''gpt-4o-mini'', ?B)]"
    using b C7_model_identifier_from_environment
      [OF i2, of "''gpt-4o-mini''" world0 ?backend "[]" ?B]
    by (simp add: world0_def)
  from i1 i2 r1 r2 show ?thesis
    by simp
qed

section \<open>What the function changes\<close>

text \<open>
  C8. \<open>get_agent_response\<close> does not change the caller's transcript nor any of its
  turns: every object of the store before the call is in the store after it, unchanged,
  and new objects are only added. A returned transcript is a list object that did not
  exist before; it holds the caller's turns (the same objects, in order), after at most
  one new system turn and before exactly one new assistant turn. The completion
  capability is called at most once. The module's \<^verbatim>\<open>MODEL_NAME\<close> and the environment
  are not among the results of the function: it reads the first and never the second.
\<close>

theorem C8_caller_objects_unchanged:
  assumes "valid_messages st messages"
    and "get_agent_response_obj md backend messages st w = (r, st', w')"
  shows "(\<exists>nl nd. list_objs st' = list_objs st @ nl \<and> dict_objs st' = dict_objs st @ nd)
       \<and> list_at st' messages = list_at st messages
       \<and> messages_value st' messages = messages_value st messages
       \<and> (\<exists>cs. calls w' = calls w @ cs \<and> length cs \<le> 1)
       \<and> (\<forall>u. r = Inr u \<longrightarrow>
             length (list_objs st) \<le> u \<and> u < length (list_objs st')
             \<and> (\<exists>pre d. list_at st' u = pre @ list_at st messages @ [d]
                   \<and> length pre \<le> 1
                   \<and> (\<forall>a \<in> set (pre @ [d]).
                         length (dict_objs st) \<le> a \<and> a < length (dict_objs st'))
                   \<and> dict_at st' d ''role'' = Some ''assistant'')
             \<and> fst (get_agent_response md backend (messages_value st messages) w)
                 = Inr (messages_value st' u))"
proof (cases "current_messages_obj messages st")
  case (Inl e)
  with assms(2) have "r = Inl e" "st' = st" "w' = w"
    by (auto simp: get_agent_response_obj_def)
  then show ?thesis
    by simp
next
  case (Inr p)
  then obtain cur st1 where c: "current_messages_obj messages st = Inr (cur, st1)"
    by (cases p) simp
  note n = current_messages_obj_Inr [OF assms(1) c]
  then obtain nl nd pre
    where ext: "list_objs st1 = list_objs st @ nl" "dict_objs st1 = dict_objs st @ nd"
      and pre: "list_at st1 cur = pre @ list_at st messages" "length pre \<le> 1"
        "\<forall>a \<in> set pre. length (dict_objs st) \<le> a \<and> a < length (dict_objs st1)"
    by blast
  from n have v1: "valid_messages st1 cur"
    and b: "current_messages (messages_value st messages) = Inr (messages_value st1 cur)"
    by simp_all
  note a = get_agent_response_obj_after_normalization [OF c v1 assms(2) b]
  from a have calls: "\<exists>cs. calls w' = calls w @ cs \<and> length cs \<le> 1"
    by simp
  show ?thesis
  proof (cases r)
    case (Inl e)
    with a have "st' = st1"
      by simp
    with ext messages_value_extend [OF assms(1) ext] calls Inl show ?thesis
      by simp
  next
    case (Inr u)
    with a obtain content where u: "u = Suc (length (list_objs st1))"
      and l': "list_objs st' = list_objs st1
                 @ [[length (dict_objs st1)], list_at st1 cur @ [length (dict_objs st1)]]"
      and d': "dict_objs st' = dict_objs st1
                 @ [[''role'' \<mapsto> ''assistant'', ''content'' \<mapsto> content]]"
      and lu: "list_at st' u = list_at st1 cur @ [length (dict_objs st1)]"
      and res: "fst (get_agent_response md backend (messages_value st messages) w)
                 = Inr (messages_value st' u)"
      by auto
    let ?d = "length (dict_objs st1)"
    from ext l' d' have ext': "list_objs st' = list_objs st
          @ (nl @ [[?d], list_at st1 cur @ [?d]])"
      "dict_objs st' = dict_objs st
          @ (nd @ [[''role'' \<mapsto> ''assistant'', ''content'' \<mapsto> content]])"
      by simp_all
    then have frame: "\<exists>nl nd. list_objs st' = list_objs st @ nl \<and> dict_objs st' = dict_objs st @ nd"
      by blast
    note same = messages_value_extend [OF assms(1) ext']
    from u ext l' have fresh: "length (list_objs st) \<le> u \<and> u < length (list_objs st')"
      by simp
    have shape: "list_at st' u = pre @ list_at st messages @ [?d]"
      by (simp add: lu pre(1))
    from pre(3) ext(2) d' have news: "\<forall>a \<in> set (pre @ [?d]).
        length (dict_objs st) \<le> a \<and> a < length (dict_objs st')"
      by auto
    have role: "dict_at st' ?d ''role'' = Some ''assistant''"
      by (simp add: dict_at_def d')
    from shape pre(2) news role
    have "\<exists>pre d. list_at st' u = pre @ list_at st messages @ [d]
        \<and> length pre \<le> 1
        \<and> (\<forall>a \<in> set (pre @ [d]). length (dict_objs st) \<le> a \<and> a < length (dict_objs st'))
        \<and> dict_at st' d ''role'' = Some ''assistant''"
      by blast
    with frame same(1) same(2) calls fresh res Inr show ?thesis
      by simp
  qed
qed

theorem C8_witness:
  "valid_messages store0 0
   \<and> get_agent_response_obj \<lparr>MODEL_NAME = ''gpt-4o-mini''\<rparr>
        (const_backend (Inr (completion_with_content (PStr ''Hello.'')))) 0 store0 world0
     = (Inr 4,
        \<lparr>list_objs = [[0], [1], [1, 0], [2], [1, 0, 2]],
           dict_objs = [[''role'' \<mapsto> ''user'', ''content'' \<mapsto> ''hi''],
                        [''role'' \<mapsto> ''system'', ''content'' \<mapsto> SYSTEM_PROMPT],
                        [''role'' \<mapsto> ''assistant'', ''content'' \<mapsto> ''Hello.'']]\<rparr>,
        \<lparr>calls = [(''gpt-4o-mini'',
                    [[''role'' \<mapsto> ''system'', ''content'' \<mapsto> SYSTEM_PROMPT],
                     [''role'' \<mapsto> ''user'', ''content'' \<mapsto> ''hi'']])],
           provider = ()\<rparr>)
   \<and> fst (get_agent_response \<lparr>MODEL_NAME = ''gpt-4o-mini''\<rparr>
        (const_backend (Inr (completion_with_content (PStr ''Hello.''))))
        (messages_value store0 0) world0)
     = Inr (messages_value
        \<lparr>list_objs = [[0], [1], [1, 0], [2], [1, 0, 2]],
           dict_objs = [[''role'' \<mapsto> ''user'', ''content'' \<mapsto> ''hi''],
                        [''role'' \<mapsto> ''system'', ''content'' \<mapsto> SYSTEM_PROMPT],
                        [''role'' \<mapsto> ''assistant'', ''content'' \<mapsto> ''Hello.'']]\<rparr> 4)"
proof -
  let ?md = "\<lparr>MODEL_NAME = ''gpt-4o-mini''\<rparr>"
  let ?backend = "const_backend (Inr (completion_with_content (PStr ''Hello.''))) :: unit backend"
  let ?st' = "\<lparr>list_objs = [[0], [1], [1, 0], [2], [1, 0, 2]],
           dict_objs = [[''role'' \<mapsto> ''user'', ''content'' \<mapsto> ''hi''],
                        [''role'' \<mapsto> ''system'', ''content'' \<mapsto> SYSTEM_PROMPT],
                        [''role'' \<mapsto> ''assistant'', ''content'' \<mapsto> ''Hello.'']]\<rparr>"
  let ?w' = "\<lparr>calls = [(''gpt-4o-mini'',
                    [[''role'' \<mapsto> ''system'', ''content'' \<mapsto> SYSTEM_PROMPT],
                     [''role'' \<mapsto> ''user'', ''content'' \<mapsto> ''hi'']])],
           provider = ()\<rparr>"
  have v: "valid_messages store0 0"
    by (simp add: valid_messages_def store0_def list_at_def)
  have n: "current_messages_obj 0 store0
      = Inr (2, \<lparr>list_objs = [[0], [1], [1, 0]],
                  dict_objs = [[''role'' \<mapsto> ''user'', ''content'' \<mapsto> ''hi''],
                               [''role'' \<mapsto> ''system'', ''content'' \<mapsto> SYSTEM_PROMPT]]\<rparr>)"
    by (simp add: current_messages_obj_def prepend_system_def new_dict_def new_list_def
        list_add_def list_at_def dict_at_def dict_getitem_def store0_def)
  have g: "get_agent_response_obj ?md ?backend 0 store0 world0 = (Inr 4, ?st', ?w')"
    by (simp add: get_agent_response_obj_def n litellm_completion_def const_backend_def
        assistant_reply_content_mock strip_def py_isspace_def updated_messages_obj_def
        new_dict_def new_list_def list_add_def list_at_def dict_at_def messages_value_def
        world0_def)
  from C8_caller_objects_unchanged [OF v g]
  have "fst (get_agent_response ?md ?backend (messages_value store0 0) world0)
      = Inr (messages_value ?st' 4)"
    by blast
  with v g show ?thesis
    by simp
qed

section \<open>Normalization applied twice, and system turns further down\<close>

text \<open>
  C9. System-normalization is idempotent. Whenever the first turn of \<open>T\<close> has a role
  (or \<open>T\<close> is empty) normalization yields a sequence; every sequence it yields starts
  with a system turn, and normalizing that sequence again gives it back unchanged.
  Hence an output of \<open>get_agent_response\<close>, given to the function again, is sent as it
  is: no second default system turn is put in front.
\<close>

theorem C9_normalization_idempotent:
  "((T = [] \<or> ''role'' \<in> dom (hd T)) \<longrightarrow> (\<exists>B. current_messages T = Inr B))
   \<and> (current_messages T = Inr B \<longrightarrow>
        B \<noteq> [] \<and> hd B ''role'' = Some ''system'' \<and> current_messages B = Inr B)
   \<and> (fst (get_agent_response md backend T w) = Inr out \<longrightarrow>
        current_messages out = Inr out
        \<and> calls (snd (get_agent_response md' backend' out w'))
            = calls w' @ [(MODEL_NAME md', out)])"
proof (intro conjI impI)
  assume "T = [] \<or> ''role'' \<in> dom (hd T)"
  then show "\<exists>B. current_messages T = Inr B"
    by (auto simp: current_messages_def dict_getitem_def)
next
  assume b: "current_messages T = Inr B"
  then show "B \<noteq> []" and "hd B ''role'' = Some ''system''"
    using current_messages_starts_with_system by blast+
  then show "current_messages B = Inr B"
    by (rule current_messages_keep)
next
  assume "fst (get_agent_response md backend T w) = Inr out"
  then obtain B' s where b: "current_messages T = Inr B'"
    and o: "out = B' @ [[''role'' \<mapsto> ''assistant'', ''content'' \<mapsto> s]]"
    using get_agent_response_returned by blast
  from b have "B' \<noteq> []" and "hd B' ''role'' = Some ''system''"
    using current_messages_starts_with_system by blast+
  with o have "out \<noteq> []" and "hd out ''role'' = Some ''system''"
    by simp_all
  then show keep: "current_messages out = Inr out"
    by (rule current_messages_keep)
  then show "calls (snd (get_agent_response md' backend' out w'))
      = calls w' @ [(MODEL_NAME md', out)]"
    by (rule get_agent_response_calls)
qed

theorem C9_witness:
  "current_messages [[''role'' \<mapsto> ''user'', ''content'' \<mapsto> ''hi'']]
     = Inr [[''role'' \<mapsto> ''system'', ''content'' \<mapsto> SYSTEM_PROMPT],
            [''role'' \<mapsto> ''user'', ''content'' \<mapsto> ''hi'']]
   \<and> current_messages [[''role'' \<mapsto> ''system'', ''content'' \<mapsto> SYSTEM_PROMPT],
            [''role'' \<mapsto> ''user'', ''content'' \<mapsto> ''hi'']]
     = Inr [[''role'' \<mapsto> ''system'', ''content'' \<mapsto> SYSTEM_PROMPT],
            [''role'' \<mapsto> ''user'', ''content'' \<mapsto> ''hi'']]
   \<and> fst (get_agent_response \<lparr>MODEL_NAME = ''gpt-4o-mini''\<rparr>
          (const_backend (Inr (completion_with_content (PStr ''Hello.''))))
          [[''role'' \<mapsto> ''user'', ''content'' \<mapsto> ''hi'']] world0)
     = Inr [[''role'' \<mapsto> ''system'', ''content'' \<mapsto> SYSTEM_PROMPT],
            [''role'' \<mapsto> ''user'', ''content'' \<mapsto> ''hi''],
            [''role'' \<mapsto> ''assistant'', ''content'' \<mapsto> ''Hello.'']]
   \<and> calls (snd (get_agent_response \<lparr>MODEL_NAME = ''gpt-4o-mini''\<rparr>
          (const_backend (Inr (completion_with_content (PStr ''Again.''))))
          [[''role'' \<mapsto> ''system'', ''content'' \<mapsto> SYSTEM_PROMPT],
           [''role'' \<mapsto> ''user'', ''content'' \<mapsto> ''hi''],
           [''role'' \<mapsto> ''assistant'', ''content'' \<mapsto> ''Hello.'']] world0))
     = [(''gpt-4o-mini'',
         [[''role'' \<mapsto> ''system'', ''content'' \<mapsto> SYSTEM_PROMPT],
          [''role'' \<mapsto> ''user'', ''content'' \<mapsto> ''hi''],
          [''role'' \<mapsto> ''assistant'', ''content'' \<mapsto> ''Hello.'']])]"
proof -
  let ?md = "\<lparr>MODEL_NAME = ''gpt-4o-mini''\<rparr>"
  let ?T = "[[''role'' \<mapsto> ''user'', ''content'' \<mapsto> ''hi'']]"
  let ?B = "[[''role'' \<mapsto> ''system'', ''content'' \<mapsto> SYSTEM_PROMPT],
             [''role'' \<mapsto> ''user'', ''content'' \<mapsto> ''hi'']]"
  let ?out = "[[''role'' \<mapsto> ''system'', ''content'' \<mapsto> SYSTEM_PROMPT],
               [''role'' \<mapsto> ''user'', ''content'' \<mapsto> ''hi''],
               [''role'' \<mapsto> ''assistant'', ''content'' \<mapsto> ''Hello.'']]"
  let ?backend = "const_backend (Inr (completion_with_content (PStr ''Hello.''))) :: unit backend"
  let ?backend' = "const_backend (Inr (completion_with_content (PStr ''Again.''))) :: unit backend"
  have b: "current_messages ?T = Inr ?B"
    by (simp add: current_messages_def dict_getitem_def)
  have o: "fst (get_agent_response ?md ?backend ?T world0) = Inr ?out"
    by (simp add: get_agent_response_def b litellm_completion_def const_backend_def
        assistant_reply_content_mock strip_def py_isspace_def world0_def)
  note C9 = C9_normalization_idempotent [of ?T ?B ?md ?backend world0 ?out ?md ?backend' world0]
  from C9 b have "current_messages ?B = Inr ?B"
    by blast
  moreover from C9 o have "calls (snd (get_agent_response ?md ?backend' ?out world0))
      = calls world0 @ [(MODEL_NAME ?md, ?out)]"
    by blast
  ultimately show ?thesis
    using b o by (simp add: world0_def)
qed

text \<open>
  C10. Only the first element is inspected. For a non-empty transcript whose first
  turn's role is not "system" but which has a turn with role "system" further down, the
  default system turn is still put in front: the sequence sent holds one system turn
  more than the transcript, hence at least two.
\<close>

theorem C10_later_system_turn_not_seen:
  assumes "T \<noteq> []"
    and "hd T ''role'' = Some r" and "r \<noteq> ''system''"
    and "\<exists>m \<in> set (tl T). m ''role'' = Some ''system''"
  shows "\<exists>sent. calls (snd (get_agent_response md backend T w)) = calls w @ [(MODEL_NAME md, sent)]
           \<and> sent = [''role'' \<mapsto> ''system'', ''content'' \<mapsto> SYSTEM_PROMPT] # T
           \<and> length (filter (\<lambda>m. m ''role'' = Some ''system'') sent)
               = Suc (length (filter (\<lambda>m. m ''role'' = Some ''system'') T))
           \<and> 2 \<le> length (filter (\<lambda>m. m ''role'' = Some ''system'') sent)"
proof -
  let ?sys = "\<lambda>m :: message. m ''role'' = Some ''system''"
  let ?sent = "[''role'' \<mapsto> ''system'', ''content'' \<mapsto> SYSTEM_PROMPT] # T"
  from assms(2) assms(3) have "current_messages T = Inr ?sent"
    by (intro current_messages_prepend) blast
  then have sent: "calls (snd (get_agent_response md backend T w))
      = calls w @ [(MODEL_NAME md, ?sent)]"
    by (rule get_agent_response_calls)
  have count: "length (filter ?sys ?sent) = Suc (length (filter ?sys T))"
    by simp
  from assms(4) obtain m where "m \<in> set (tl T)" and "?sys m"
    by blast
  with assms(1) have "m \<in> set (filter ?sys T)"
    by (auto dest: list.set_sel(2))
  then have "0 < length (filter ?sys T)"
    by (rule length_pos_if_in_set)
  then have "1 \<le> length (filter ?sys T)"
    by (simp only: One_nat_def Suc_le_eq)
  with count have "2 \<le> length (filter ?sys ?sent)"
    by simp
  with sent count show ?thesis
    by blast
qed

theorem C10_witness:
  "[[''role'' \<mapsto> ''user'', ''content'' \<mapsto> ''hi''],
    [''role'' \<mapsto> ''system'', ''content'' \<mapsto> ''custom instructions'']] \<noteq> []
   \<and> hd [[''role'' \<mapsto> ''user'', ''content'' \<mapsto> ''hi''],
          [''role'' \<mapsto> ''system'', ''content'' \<mapsto> ''custom instructions'']] ''role'' = Some ''user''
   \<and> ''user'' \<noteq> ''system''
   \<and> (\<exists>sent. calls (snd (get_agent_response \<lparr>MODEL_NAME = ''gpt-4o-mini''\<rparr>
          (const_backend (Inr (completion_with_content (PStr ''Hello.''))))
          [[''role'' \<mapsto> ''user'', ''content'' \<mapsto> ''hi''],
           [''role'' \<mapsto> ''system'', ''content'' \<mapsto> ''custom instructions'']] world0))
        = [(''gpt-4o-mini'', sent)]
      \<and> sent = [[''role'' \<mapsto> ''system'', ''content'' \<mapsto> SYSTEM_PROMPT],
                 [''role'' \<mapsto> ''user'', ''content'' \<mapsto> ''hi''],
                 [''role'' \<mapsto> ''system'', ''content'' \<mapsto> ''custom instructions'']]
      \<and> length (filter (\<lambda>m. m ''role'' = Some ''system'') sent) = 2)"
proof -
  let ?T = "[[''role'' \<mapsto> ''user'', ''content'' \<mapsto> ''hi''],
             [''role'' \<mapsto> ''system'', ''content'' \<mapsto> ''custom instructions'']]"
  have h1: "?T \<noteq> []"
    by simp
  have h2: "hd ?T ''role'' = Some ''user''"
    by simp
  have h3: "''user'' \<noteq> ''system''"
    by simp
  have h4: "\<exists>m \<in> set (tl ?T). m ''role'' = Some ''system''"
    by simp
  from C10_later_system_turn_not_seen [OF h1 h2 h3 h4,
      of "\<lparr>MODEL_NAME = ''gpt-4o-mini''\<rparr>"
         "const_backend (Inr (completion_with_content (PStr ''Hello.'')))" world0]
  show ?thesis
    using h2 by (simp add: world0_def)
qed

end
